theory Spec2Isabelle
  imports Complex_Main "HOL-Library.Log_Nat"
begin

section \<open>Common conventions\<close>

text \<open>
  Account addresses (\<^verbatim>\<open>PublicKey\<close>, base58 strings) are strings. A finite JavaScript
  number and a finite \<^verbatim>\<open>BigNumber\<close> are rationals; \<^verbatim>\<open>undefined\<close>, \<^verbatim>\<open>null\<close>
  and \<^verbatim>\<open>NaN\<close> of an optional number are \<open>None\<close>. A \<^verbatim>\<open>throw\<close> is the left
  injection of a sum. Calls into collaborators whose code is outside the modelled files
  (RPC reads, address derivations, decoders) are parameters of the model, gathered in
  environment records; an instruction is the name of its encoder with the arguments of
  the call.
\<close>

type_synonym pubkey = string

datatype error =
    External string
  | PositionLimitExceeded nat
  | NotInitializedWithWithdrawReserve
  | WrappedAtaNotInitialized
  | UnableToFetchReserve string
  | UnableToParseReserve string
  | UnableToFindBorrow pubkey
  | CouldNotFindAsset string
  | TypeError string
  | InvalidCharacter


section \<open>Liquidator: oracle prices (\<^verbatim>\<open>getTokenOracleData\<close>)\<close>

definition SWITCHBOARD_V1_ADDRESS :: string where
  "SWITCHBOARD_V1_ADDRESS = ''DtmE9D2CSB4L5D6A15mraeEjrGMm6auWVzgaD8hK2tZM''"

definition SWITCHBOARD_V2_ADDRESS :: string where
  "SWITCHBOARD_V2_ADDRESS = ''SW1TCH7qEPTdLsDHRgPuMQjbQxKdH2aBStViMFnt64f''"

record TokenOracleData =
  symbol :: string
  reserveAddress :: string
  tokenMintAddress :: string
  decimals :: rat
  price :: rat

record LiquidityToken =
  tokenSymbol :: string
  tokenMint :: string
  tokenDecimals :: nat

record MarketConfigReserve =
  liquidityToken :: LiquidityToken
  configAddress :: string
  switchboardFeedAddress :: string

record AccountInfo =
  accountOwner :: string
  accountData :: "nat list"

text \<open>
  The reads and decoders \<^verbatim>\<open>getTokenOracleData\<close> calls. \<open>fetchAccountInfo\<close> is
  \<^verbatim>\<open>connection.getAccountInfo(new PublicKey(address))\<close>; \<open>decodeV1\<close> is
  \<^verbatim>\<open>AggregatorState.decodeDelimited(bytes)?.lastRoundResult?.result\<close>; \<open>decodeV2\<close> is
  loading the Switchboard program once and
  \<^verbatim>\<open>decodeLatestAggregatorValue(info)?.toNumber()\<close>. Each may throw.
\<close>

record OracleEnv =
  fetchAccountInfo :: "pubkey \<Rightarrow> error + AccountInfo option"
  decodeV1 :: "nat list \<Rightarrow> error + rat option"
  decodeV2 :: "AccountInfo \<Rightarrow> error + rat option"

datatype oracle_log =
    UnrecognizedSwitchboardOwner "string option"
  | FailedToGetPrice string string

text \<open>The chain \<^verbatim>\<open>if (owner === V1) ... else if (owner === V2) ... else ...\<close>.\<close>

definition readPriceData ::
  "OracleEnv \<Rightarrow> AccountInfo option \<Rightarrow> error + (rat option \<times> oracle_log list)" where
  "readPriceData env info =
     (case info of
        None \<Rightarrow> Inr (None, [UnrecognizedSwitchboardOwner None])
      | Some i \<Rightarrow>
          if accountOwner i = SWITCHBOARD_V1_ADDRESS then
            (case decodeV1 env (drop 1 (accountData i)) of
               Inl e \<Rightarrow> Inl e | Inr p \<Rightarrow> Inr (p, []))
          else if accountOwner i = SWITCHBOARD_V2_ADDRESS then
            (case decodeV2 env i of
               Inl e \<Rightarrow> Inl e | Inr p \<Rightarrow> Inr (p, []))
          else Inr (None, [UnrecognizedSwitchboardOwner (Some (accountOwner i))]))"

text \<open>\<^verbatim>\<open>!priceData\<close>: true of \<^verbatim>\<open>undefined\<close>, \<^verbatim>\<open>NaN\<close> and \<open>0\<close>.\<close>

definition falsy :: "rat option \<Rightarrow> bool" where
  "falsy p = (case p of None \<Rightarrow> True | Some v \<Rightarrow> v = 0)"

definition getTokenOracleData ::
  "OracleEnv \<Rightarrow> MarketConfigReserve \<Rightarrow> error + (TokenOracleData \<times> oracle_log list)" where
  "getTokenOracleData env reserve =
     (case fetchAccountInfo env (switchboardFeedAddress reserve) of
        Inl e \<Rightarrow> Inl e
      | Inr info \<Rightarrow>
          (case readPriceData env info of
             Inl e \<Rightarrow> Inl e
           | Inr (priceData, logs) \<Rightarrow>
               let (priceData', logs') =
                     (if falsy priceData
                      then (0, logs @ [FailedToGetPrice
                                         (tokenSymbol (liquidityToken reserve))
                                         (configAddress reserve)])
                      else (case priceData of Some v \<Rightarrow> v | None \<Rightarrow> 0, logs))
               in Inr (\<lparr> symbol = tokenSymbol (liquidityToken reserve),
                          reserveAddress = configAddress reserve,
                          tokenMintAddress = tokenMint (liquidityToken reserve),
                          decimals = 10 ^ tokenDecimals (liquidityToken reserve),
                          price = priceData' \<rparr>, logs')))"

text \<open>
  \<^verbatim>\<open>getTokensOracleData\<close>: \<^verbatim>\<open>Promise.all\<close> over the market's reserves; it
  rejects as soon as one of the calls rejects (here: the first one in list order) and
  otherwise returns the results in the order of the reserves.
\<close>

fun getTokensOracleData ::
  "OracleEnv \<Rightarrow> MarketConfigReserve list \<Rightarrow> error + TokenOracleData list" where
  "getTokensOracleData env [] = Inr []"
| "getTokensOracleData env (r # rs) =
     (case getTokenOracleData env r of
        Inl e \<Rightarrow> Inl e
      | Inr (d, _) \<Rightarrow>
          (case getTokensOracleData env rs of
             Inl e \<Rightarrow> Inl e
           | Inr ds \<Rightarrow> Inr (d # ds)))"


section \<open>Liquidator: the scan over obligations (\<^verbatim>\<open>runLiquidator\<close>)\<close>

record Borrow =
  borrowMarketValue :: rat
  borrowMintAddress :: string
  borrowSymbol :: string

record Deposit =
  depositMarketValue :: rat
  depositSymbol :: string

record RefreshedObligation =
  borrowedValue :: rat
  unhealthyBorrowValue :: rat
  refreshedDeposits :: "Deposit list"
  refreshedBorrows :: "Borrow list"

text \<open>An obligation as the scan holds it: its address and its decoded content.\<close>

record 'i ParsedObligation =
  pubkey :: pubkey
  info :: 'i

text \<open>
  What one market scan calls, with the connection, the market, the payer, the reserves
  and the oracle prices of the scan fixed. \<open>'w\<close> is the state of the chain, which a
  liquidation changes. \<open>refetchObligation\<close> is \<^verbatim>\<open>connection.getAccountInfo\<close> of the
  obligation's address followed by \<^verbatim>\<open>parseObligation\<close>; its result \<open>None\<close> is a
  \<^verbatim>\<open>null\<close> obligation.
\<close>

record ('w, 'i) LiquidatorEnv =
  calculateRefreshedObligation :: "'i \<Rightarrow> error + RefreshedObligation"
  sortBorrows :: "Borrow list \<Rightarrow> Borrow list"
  getWalletTokenData :: "'w \<Rightarrow> string \<Rightarrow> string \<Rightarrow> error + rat"
  liquidateAndRedeem ::
    "'w \<Rightarrow> rat \<Rightarrow> string \<Rightarrow> string \<Rightarrow> 'i ParsedObligation \<Rightarrow> error + 'w"
  refetchObligation :: "'w \<Rightarrow> 'i ParsedObligation \<Rightarrow> error + 'i ParsedObligation option"

text \<open>
  What the scan does that can be observed: the calls of
  \<^verbatim>\<open>calculateRefreshedObligation\<close> and \<^verbatim>\<open>liquidateAndRedeem\<close> (with the amount, the
  repay and withdraw symbols and the obligation passed), and the console lines.
\<close>

datatype 'i event =
    Evaluate "'i ParsedObligation"
  | LogUnderwater pubkey rat rat
  | LogInsufficient string pubkey
  | LogBalanceFailed string pubkey
  | LiquidateAndRedeem rat string string "'i ParsedObligation"
  | LogError pubkey error

text \<open>
  The \<^verbatim>\<open>forEach\<close> choosing the deposit: the first deposit, replaced by each later
  one whose market value is strictly greater.
\<close>

definition selectDeposit :: "Deposit list \<Rightarrow> Deposit option" where
  "selectDeposit ds =
     foldl (\<lambda>selected d.
              case selected of
                None \<Rightarrow> Some d
              | Some s \<Rightarrow> if depositMarketValue s < depositMarketValue d then Some d
                          else Some s)
           None ds"

text \<open>\<^verbatim>\<open>sortBorrows(borrows)[0]\<close>, \<^verbatim>\<open>undefined\<close> on an empty array.\<close>

definition selectBorrow :: "('w, 'i) LiquidatorEnv \<Rightarrow> Borrow list \<Rightarrow> Borrow option" where
  "selectBorrow env bs = (case sortBorrows env bs of [] \<Rightarrow> None | b # _ \<Rightarrow> Some b)"

text \<open>
  One pass of the body of \<^verbatim>\<open>while (obligation)\<close>: it ends with \<^verbatim>\<open>break\<close>, with
  a thrown error, or with the reloaded obligation for the next pass.
\<close>

datatype 'i pass_end = Break | Throw error | Next "'i ParsedObligation option"

definition liquidationPass ::
  "('w, 'i) LiquidatorEnv \<Rightarrow> 'w \<Rightarrow> 'i ParsedObligation \<Rightarrow> 'i pass_end \<times> 'i event list \<times> 'w" where
  "liquidationPass env w obligation =
     (case calculateRefreshedObligation env (info obligation) of
        Inl e \<Rightarrow> (Throw e, [Evaluate obligation], w)
      | Inr r \<Rightarrow>
          if borrowedValue r \<le> unhealthyBorrowValue r
          then (Break, [Evaluate obligation], w)
          else
            (case (selectBorrow env (refreshedBorrows r), selectDeposit (refreshedDeposits r)) of
               (Some selectedBorrow, Some selectedDeposit) \<Rightarrow>
                 (let underwater =
                        [Evaluate obligation,
                         LogUnderwater (pubkey obligation) (borrowedValue r)
                           (unhealthyBorrowValue r)]
                  in case getWalletTokenData env w (borrowMintAddress selectedBorrow)
                            (borrowSymbol selectedBorrow) of
                       Inl e \<Rightarrow> (Throw e, underwater, w)
                     | Inr balanceBase \<Rightarrow>
                         if balanceBase = 0 then
                           (Break,
                            underwater @ [LogInsufficient (borrowSymbol selectedBorrow)
                                            (pubkey obligation)], w)
                         else if balanceBase < 0 then
                           (Break,
                            underwater @ [LogBalanceFailed (borrowSymbol selectedBorrow)
                                            (pubkey obligation)], w)
                         else
                           (let called = underwater @
                                  [LiquidateAndRedeem balanceBase (borrowSymbol selectedBorrow)
                                     (depositSymbol selectedDeposit) obligation]
                            in case liquidateAndRedeem env w balanceBase
                                      (borrowSymbol selectedBorrow)
                                      (depositSymbol selectedDeposit) obligation of
                                 Inl e \<Rightarrow> (Throw e, called, w)
                               | Inr w' \<Rightarrow>
                                   (case refetchObligation env w' obligation of
                                      Inl e \<Rightarrow> (Throw e, called, w')
                                    | Inr obligation' \<Rightarrow> (Next obligation', called, w'))))
             | _ \<Rightarrow> (Break, [Evaluate obligation], w)))"

text \<open>
  The \<^verbatim>\<open>while (obligation)\<close> loop. Nothing bounds its passes, so the model counts them:
  \<open>OutOfFuel\<close> says that the loop was still running after the given number of passes.
  \<open>Raised e ob\<close> is an error thrown while \<open>ob\<close> was the loop's obligation.
\<close>

datatype 'i loop_end = Finished | Raised error "'i ParsedObligation" | OutOfFuel

fun liquidationLoop ::
  "nat \<Rightarrow> ('w, 'i) LiquidatorEnv \<Rightarrow> 'w \<Rightarrow> 'i ParsedObligation option
     \<Rightarrow> 'i loop_end \<times> 'i event list \<times> 'w" where
  "liquidationLoop n env w None = (Finished, [], w)"
| "liquidationLoop 0 env w (Some obligation) = (OutOfFuel, [], w)"
| "liquidationLoop (Suc n) env w (Some obligation) =
     (case liquidationPass env w obligation of
        (Break, evs, w') \<Rightarrow> (Finished, evs, w')
      | (Throw e, evs, w') \<Rightarrow> (Raised e obligation, evs, w')
      | (Next obligation', evs, w') \<Rightarrow>
          (case liquidationLoop n env w' obligation' of
             (end, evs', w'') \<Rightarrow> (end, evs @ evs', w'')))"

text \<open>
  \<^verbatim>\<open>for (let obligation of allObligations) { try { while ... } catch (err) { ...; continue; } }\<close>:
  the scan of one market's obligations. Its only ends are the end of the list and a loop
  that does not stop.
\<close>

datatype scan_end = ScanDone | ScanOutOfFuel

fun scanObligations ::
  "nat \<Rightarrow> ('w, 'i) LiquidatorEnv \<Rightarrow> 'w \<Rightarrow> 'i ParsedObligation list
     \<Rightarrow> scan_end \<times> 'i event list \<times> 'w" where
  "scanObligations n env w [] = (ScanDone, [], w)"
| "scanObligations n env w (obligation # rest) =
     (case liquidationLoop n env w (Some obligation) of
        (OutOfFuel, evs, w') \<Rightarrow> (ScanOutOfFuel, evs, w')
      | (Finished, evs, w') \<Rightarrow>
          (case scanObligations n env w' rest of
             (end, evs', w'') \<Rightarrow> (end, evs @ evs', w''))
      | (Raised e ob, evs, w') \<Rightarrow>
          (case scanObligations n env w' rest of
             (end, evs', w'') \<Rightarrow> (end, evs @ LogError (pubkey ob) e # evs', w'')))"


section \<open>Numbers of the action builder\<close>

text \<open>
  \<^verbatim>\<open>BN\<close> values are integers. A \<^verbatim>\<open>BigNumber\<close> product and sum are exact; a
  \<^verbatim>\<open>BigNumber\<close> quotient is rounded to 20 decimal places, half away from zero (the
  library's defaults \<^verbatim>\<open>DECIMAL_PLACES = 20\<close> and \<^verbatim>\<open>ROUND_HALF_UP\<close>).
\<close>

definition roundHalfUp :: "rat \<Rightarrow> int" where
  "roundHalfUp x = (if 0 \<le> x then \<lfloor>x + 1 / 2\<rfloor> else - \<lfloor>- x + 1 / 2\<rfloor>)"

definition dividedBy :: "rat \<Rightarrow> rat \<Rightarrow> rat" where
  "dividedBy x y = of_int (roundHalfUp (x / y * 10 ^ 20)) / 10 ^ 20"

text \<open>
  A JavaScript number is a double: \<open>toNumber\<close> is the rounding of a rational to the
  nearest value with a 53-bit significand, ties to the even significand. \<open>binade x\<close>,
  for \<open>0 < x\<close>, is the exponent \<open>e\<close> with \<open>2 ^ e \<le> x < 2 ^ (e + 1)\<close>. The exponent
  range of a double (overflow to \<^verbatim>\<open>Infinity\<close> from \<open>2 ^ 1024\<close>, subnormals below
  \<open>2 ^ - 1022\<close>) is not modelled: the amounts of the builder stay far inside it.
\<close>

definition roundHalfEven :: "rat \<Rightarrow> int" where
  "roundHalfEven x =
     (let f = \<lfloor>x\<rfloor>; d = x - of_int f
      in if d < 1 / 2 then f
         else if 1 / 2 < d then f + 1
         else if even f then f else f + 1)"

definition binade :: "rat \<Rightarrow> int" where
  "binade x =
     (if 1 \<le> x then int (floorlog 2 (nat \<lfloor>x\<rfloor>)) - 1
      else - int (floorlog 2 (nat (\<lceil>1 / x\<rceil> - 1))))"

definition ulp :: "rat \<Rightarrow> rat" where
  "ulp x =
     (let e = binade x
      in if 52 \<le> e then 2 ^ nat (e - 52) else 1 / 2 ^ nat (52 - e))"

definition toNumber :: "rat \<Rightarrow> rat" where
  "toNumber x =
     (if x = 0 then 0
      else if 0 < x then of_int (roundHalfEven (x / ulp x)) * ulp x
      else - (of_int (roundHalfEven (- x / ulp (- x))) * ulp (- x)))"

text \<open>\<^verbatim>\<open>parseInt(bn.toString(), 10)\<close>: the double nearest to the integer.\<close>

definition parseInt :: "int \<Rightarrow> rat" where
  "parseInt n = toNumber (of_int n)"

text \<open>The sum of two JavaScript numbers.\<close>

definition numberPlus :: "rat \<Rightarrow> rat \<Rightarrow> rat" where
  "numberPlus a b = toNumber (a + b)"


section \<open>Action builder: data (\<^verbatim>\<open>SolendActionCore\<close>)\<close>

text \<open>
  Modelled from the spec: the constant \<^verbatim>\<open>U64_MAX\<close> of the module \<^verbatim>\<open>./constants\<close>,
  whose file is not among the sources. The spec calls it the maximum representable
  unsigned (64-bit) integer. It is a decimal string in the code; an amount \<open>a\<close>
  satisfies \<^verbatim>\<open>a.toString() === U64_MAX\<close>, and \<^verbatim>\<open>a.eq(new BN(U64_MAX))\<close>, exactly
  when it is this integer.
\<close>

definition U64_MAX :: int where
  "U64_MAX = 2 ^ 64 - 1"

text \<open>
  Modelled from the spec: the constant \<^verbatim>\<open>WAD\<close> of the module \<^verbatim>\<open>./constants\<close>, the
  18-decimal fixed-point scaling factor.
\<close>

definition WAD :: nat where
  "WAD = 10 ^ 18"

text \<open>\<^verbatim>\<open>const SOL_PADDING_FOR_INTEREST = "1000000"\<close>\<close>

definition SOL_PADDING_FOR_INTEREST :: nat where
  "SOL_PADDING_FOR_INTEREST = 1000000"

text \<open>The address of the wrapped native mint, a constant of the token library.\<close>

definition NATIVE_MINT :: pubkey where
  "NATIVE_MINT = ''So11111111111111111111111111111111111111112''"

text \<open>
  Modelled from the spec: the constant \<^verbatim>\<open>NULL_ORACLE\<close> of the module
  \<^verbatim>\<open>./constants\<close>, the oracle null-address sentinel, with the value that the
  liquidator's oracle module gives it.
\<close>

definition NULL_ORACLE :: pubkey where
  "NULL_ORACLE = ''nu11111111111111111111111111111111111111111''"

datatype SupportType =
    Wrap | Unwrap | RefreshReserves | RefreshObligation | CreateObligation
  | CAta | Ata | WrapUnwrapLiquidate | Wsol

datatype ActionType =
    Deposit | Borrow | Withdraw | Repay | Mint | Redeem
  | DepositCollateral | WithdrawCollateral | Forgive | Liquidate

fun ACTION_SUPPORT_REQUIREMENTS :: "ActionType \<Rightarrow> SupportType list" where
  "ACTION_SUPPORT_REQUIREMENTS Deposit = [Wsol, Wrap, CreateObligation, CAta]"
| "ACTION_SUPPORT_REQUIREMENTS Borrow =
     [Wsol, Ata, RefreshReserves, RefreshObligation, Unwrap]"
| "ACTION_SUPPORT_REQUIREMENTS Withdraw =
     [Wsol, Ata, CAta, RefreshReserves, RefreshObligation, Unwrap]"
| "ACTION_SUPPORT_REQUIREMENTS Repay = [Wsol, Wrap]"
| "ACTION_SUPPORT_REQUIREMENTS Mint = [Wsol, Wrap, CAta]"
| "ACTION_SUPPORT_REQUIREMENTS Redeem =
     [Wsol, Ata, RefreshReserves, RefreshObligation, Unwrap]"
| "ACTION_SUPPORT_REQUIREMENTS DepositCollateral = [CreateObligation]"
| "ACTION_SUPPORT_REQUIREMENTS WithdrawCollateral =
     [CAta, RefreshReserves, RefreshObligation]"
| "ACTION_SUPPORT_REQUIREMENTS Forgive = []"
| "ACTION_SUPPORT_REQUIREMENTS Liquidate =
     [Wsol, Ata, CAta, WrapUnwrapLiquidate, RefreshReserves, RefreshObligation]"

record ReserveType =
  address :: pubkey
  mintAddress :: pubkey
  cTokenMint :: pubkey
  liquidityAddress :: pubkey
  cTokenLiquidityAddress :: pubkey
  pythOracle :: pubkey
  switchboardOracle :: pubkey
  extraOracle :: "pubkey option"
  liquidityFeeReceiverAddress :: pubkey
  feeReceiverAddress :: pubkey

record PoolType =
  poolAddress :: pubkey
  poolOwner :: pubkey
  authorityAddress :: pubkey
  reserves :: "ReserveType list"

record ObligationCollateral =
  depositReserve :: pubkey

record ObligationLiquidity =
  borrowReserve :: pubkey
  cumulativeBorrowRateWads :: nat
  borrowedAmountWads :: nat

record Obligation =
  owner :: pubkey
  deposits :: "ObligationCollateral list"
  borrows :: "ObligationLiquidity list"

text \<open>
  The instructions the builder asks its encoders for, one constructor for each encoder,
  with the encoder's arguments in the order of the call; the account arguments of a
  lending instruction are one list.
\<close>

datatype instruction =
    ForgiveDebtInstruction pubkey pubkey pubkey pubkey int pubkey
  | DepositMaxReserveLiquidityAndObligationCollateralInstruction "pubkey list"
  | DepositReserveLiquidityAndObligationCollateralInstruction int "pubkey list"
  | DepositReserveLiquidityInstruction int "pubkey list"
  | RedeemReserveCollateralInstruction int "pubkey list"
  | WithdrawObligationCollateralInstruction int "pubkey list" "pubkey list"
  | DepositObligationCollateralInstruction int "pubkey list"
  | BorrowObligationLiquidityInstruction int "pubkey list" "pubkey list" "pubkey option"
  | WithdrawObligationCollateralAndRedeemReserveLiquidity int "pubkey list" "pubkey list"
  | WithdrawExact int "pubkey list" "pubkey list"
  | RepayMaxObligationLiquidityInstruction "pubkey list"
  | RepayObligationLiquidityInstruction int "pubkey list"
  | LiquidateObligationAndRedeemReserveCollateral int "pubkey list"
  | CreateAssociatedTokenAccountIdempotentInstruction pubkey pubkey pubkey pubkey
      "pubkey option"
  | CreateAssociatedTokenAccountInstruction pubkey pubkey pubkey pubkey
  | CreateDepositAndMintWrapperTokensInstruction pubkey pubkey pubkey int
  | CreateWithdrawAndBurnWrapperTokensInstruction pubkey pubkey pubkey int
  | RefreshReserveInstruction pubkey pubkey pubkey pubkey "pubkey option"
  | RefreshObligationInstruction pubkey "pubkey list" "pubkey list" pubkey
  | CreateAccountWithSeed pubkey pubkey pubkey string nat nat pubkey
  | InitObligationInstruction pubkey pubkey pubkey pubkey
  | Transfer pubkey pubkey rat
  | SyncNative pubkey
  | CreateCloseAccountInstruction pubkey pubkey pubkey
  | OracleUpdate string

text \<open>The address of the Token-2022 program, a constant of the token library.\<close>

definition TOKEN_2022_PROGRAM_ID :: pubkey where
  "TOKEN_2022_PROGRAM_ID = ''TokenzQdBNbLqP5VEhdkAS6EPFLC1PHnBqCXEpPxuEb''"

text \<open>
  An element of a bucket: the methods push either the plain instruction or the object
  \<^verbatim>\<open>{ signers: [], instruction }\<close>.
\<close>

datatype entry = Plain instruction | WithSigners "string list" instruction

text \<open>
  The builder object. Besides the fields its class declares, the methods push to
  \<^verbatim>\<open>setupIxs\<close>, \<^verbatim>\<open>cleanupIxs\<close>, \<^verbatim>\<open>postTxnIxs\<close> and \<^verbatim>\<open>pullPriceTxns\<close>,
  which the class neither declares nor initialises in this revision; they are modelled
  as further buckets that start empty, as the spec describes the plan.
\<close>

record SolendActionCore =
  programId :: pubkey
  reserve :: ReserveType
  pool :: PoolType
  publicKey :: pubkey
  obligationAddress :: pubkey
  obligationAccountInfo :: "Obligation option"
  userTokenAccountAddress :: pubkey
  userCollateralAccountAddress :: pubkey
  seed :: string
  positions :: nat
  amount :: int
  hostAta :: "pubkey option"
  lendingIxs :: "entry list"
  preIxs :: "entry list"
  postIxs :: "entry list"
  depositReserves :: "pubkey list"
  borrowReserves :: "pubkey list"
  lookupTableAccount :: "pubkey list option"
  jitoTipAmount :: nat
  userRepayTokenAccountAddress :: "pubkey option"
  userRepayCollateralAccountAddress :: "pubkey option"
  token2022Mint :: "pubkey option"
  wrappedAta :: "pubkey option"
  setupIxs :: "entry list"
  cleanupIxs :: "entry list"
  postTxnIxs :: "entry list"
  pullPriceTxns :: "string list"

text \<open>
  What the builder reads from outside the class: the constants \<^verbatim>\<open>POSITION_LIMIT\<close>
  (module \<^verbatim>\<open>./constants\<close>) and \<^verbatim>\<open>OBLIGATION_SIZE\<close> (module
  \<^verbatim>\<open>../state/obligation\<close>), whose values the sources do not show, the address
  derivations, the reads of the chain, the decoders, and the oracle services behind
  \<^verbatim>\<open>buildPullPriceTxns\<close> (given the oracle keys and the tip, they yield the
  instructions pushed to \<^verbatim>\<open>preIxs\<close> and the transactions pushed to
  \<^verbatim>\<open>pullPriceTxns\<close>). \<open>parseReserve\<close> yields the one field of a decoded reserve that
  the builder reads, \<^verbatim>\<open>liquidity.cumulativeBorrowRateWads\<close>.
\<close>

record SdkEnv =
  POSITION_LIMIT :: nat
  OBLIGATION_SIZE :: nat
  getProgramId :: "string \<Rightarrow> pubkey"
  createWithSeed :: "pubkey \<Rightarrow> string \<Rightarrow> pubkey \<Rightarrow> pubkey"
  getAssociatedTokenAddress :: "pubkey \<Rightarrow> pubkey \<Rightarrow> pubkey"
  getAssociatedTokenAddressSync :: "pubkey \<Rightarrow> pubkey \<Rightarrow> pubkey \<Rightarrow> pubkey"
  getAccountInfo :: "pubkey \<Rightarrow> error + AccountInfo option"
  parseObligation :: "AccountInfo \<Rightarrow> Obligation option"
  parseReserve :: "AccountInfo \<Rightarrow> nat option"
  getAddressLookupTable :: "pubkey \<Rightarrow> error + pubkey list option"
  getMinimumBalanceForRentExemption :: "nat \<Rightarrow> error + nat"
  getMinimumBalanceForRentExemptAccount :: "error + nat"
  pullPriceServices :: "pubkey list \<Rightarrow> nat \<Rightarrow> error + (instruction list \<times> string list)"


section \<open>Action builder: \<^verbatim>\<open>initialize\<close>\<close>

text \<open>
  \<^verbatim>\<open>Array.from(new Set(xs))\<close>: the elements of \<open>xs\<close> in the order of their first
  occurrence.
\<close>

definition arrayFromSet :: "'a list \<Rightarrow> 'a list" where
  "arrayFromSet xs = foldl (\<lambda>acc x. if x \<in> set acc then acc else acc @ [x]) [] xs"

definition distinctReserveCount ::
  "ActionType \<Rightarrow> ReserveType \<Rightarrow> pubkey list \<Rightarrow> pubkey list \<Rightarrow> nat" where
  "distinctReserveCount action rsv depositRs borrowRs =
     length (arrayFromSet (borrowRs @ (if action = Borrow then [address rsv] else [])))
     + length (arrayFromSet (depositRs @ (if action = Deposit then [address rsv] else [])))"

text \<open>
  The obligation as \<^verbatim>\<open>initialize\<close> loads it: absent when the account is, and a
  \<^verbatim>\<open>TypeError\<close> when \<^verbatim>\<open>parseObligation\<close> answers \<^verbatim>\<open>null\<close> to an account that is
  there.
\<close>

definition loadObligation :: "SdkEnv \<Rightarrow> pubkey \<Rightarrow> error + Obligation option" where
  "loadObligation env addr =
     (case getAccountInfo env addr of
        Inl e \<Rightarrow> Inl e
      | Inr None \<Rightarrow> Inr None
      | Inr (Some accountInfo) \<Rightarrow>
          (case parseObligation env accountInfo of
             None \<Rightarrow> Inl (TypeError ''parseObligation(...) is null'')
           | Some details \<Rightarrow> Inr (Some details)))"

text \<open>
  \<^verbatim>\<open>customObligationAddress ?? (await PublicKey.createWithSeed(wallet.publicKey, seed,
  programId))\<close>, with \<^verbatim>\<open>seed = customObligationSeed ?? pool.address.slice(0, 32)\<close>.
\<close>

definition deriveSeed :: "PoolType \<Rightarrow> string option \<Rightarrow> string" where
  "deriveSeed pl customObligationSeed =
     (case customObligationSeed of Some s \<Rightarrow> s | None \<Rightarrow> take 32 (poolAddress pl))"

definition deriveObligationAddress ::
  "SdkEnv \<Rightarrow> PoolType \<Rightarrow> pubkey \<Rightarrow> string \<Rightarrow> pubkey option \<Rightarrow> string option \<Rightarrow> pubkey" where
  "deriveObligationAddress env pl wallet environment customObligationAddress
     customObligationSeed =
     (case customObligationAddress of
        Some a \<Rightarrow> a
      | None \<Rightarrow> createWithSeed env wallet (deriveSeed pl customObligationSeed)
                  (getProgramId env environment))"

text \<open>
  \<^verbatim>\<open>lookupTableAddress ? (await connection.getAddressLookupTable(...)).value : undefined\<close>
\<close>

definition fetchLookupTable :: "SdkEnv \<Rightarrow> pubkey option \<Rightarrow> error + pubkey list option" where
  "fetchLookupTable env lookupTableAddress =
     (case lookupTableAddress of
        None \<Rightarrow> Inr None
      | Some a \<Rightarrow> getAddressLookupTable env a)"

text \<open>\<^verbatim>\<open>token2022Mint ? ... : undefined\<close>: the empty string counts as absent.\<close>

definition truthy :: "string option \<Rightarrow> string option" where
  "truthy s = (case s of None \<Rightarrow> None | Some v \<Rightarrow> if v = [] then None else Some v)"

definition initialize ::
  "SdkEnv \<Rightarrow> PoolType \<Rightarrow> ReserveType \<Rightarrow> ActionType \<Rightarrow> int \<Rightarrow> pubkey \<Rightarrow> string
     \<Rightarrow> pubkey option \<Rightarrow> pubkey option \<Rightarrow> string option \<Rightarrow> pubkey option \<Rightarrow> nat option
     \<Rightarrow> ReserveType option \<Rightarrow> string option \<Rightarrow> error + SolendActionCore" where
  "initialize env pl rsv action amt wallet environment customObligationAddress host
     customObligationSeed lookupTableAddress tipAmount repayReserve token2022 =
     (let obligationAddr =
            deriveObligationAddress env pl wallet environment customObligationAddress
              customObligationSeed
      in case loadObligation env obligationAddr of
           Inl e \<Rightarrow> Inl e
         | Inr obligationDetails \<Rightarrow>
             (let depositRs = (case obligationDetails of
                                 None \<Rightarrow> []
                               | Some d \<Rightarrow> map depositReserve (deposits d));
                  borrowRs = (case obligationDetails of
                                None \<Rightarrow> []
                              | Some d \<Rightarrow> map borrowReserve (borrows d));
                  count = distinctReserveCount action rsv depositRs borrowRs
              in if POSITION_LIMIT env < count
                 then Inl (PositionLimitExceeded (POSITION_LIMIT env))
                 else
                   (case fetchLookupTable env lookupTableAddress of
                      Inl e \<Rightarrow> Inl e
                    | Inr table \<Rightarrow>
                        Inr \<lparr> programId = getProgramId env environment,
                              reserve = rsv,
                              pool = pl,
                              publicKey = wallet,
                              obligationAddress = obligationAddr,
                              obligationAccountInfo = obligationDetails,
                              userTokenAccountAddress =
                                getAssociatedTokenAddress env (mintAddress rsv) wallet,
                              userCollateralAccountAddress =
                                getAssociatedTokenAddress env (cTokenMint rsv) wallet,
                              seed = deriveSeed pl customObligationSeed,
                              positions = count,
                              amount = amt,
                              hostAta = host,
                              lendingIxs = [],
                              preIxs = [],
                              postIxs = [],
                              depositReserves = depositRs,
                              borrowReserves = borrowRs,
                              lookupTableAccount = table,
                              jitoTipAmount = (case tipAmount of Some t \<Rightarrow> t | None \<Rightarrow> 1000),
                              userRepayTokenAccountAddress =
                                map_option (\<lambda>r. getAssociatedTokenAddress env (mintAddress r) wallet)
                                  repayReserve,
                              userRepayCollateralAccountAddress =
                                map_option (\<lambda>r. getAssociatedTokenAddress env (cTokenMint r) wallet)
                                  repayReserve,
                              token2022Mint = truthy token2022,
                              wrappedAta =
                                map_option (\<lambda>m. getAssociatedTokenAddressSync env m wallet
                                                   TOKEN_2022_PROGRAM_ID)
                                  (truthy token2022),
                              setupIxs = [],
                              cleanupIxs = [],
                              postTxnIxs = [],
                              pullPriceTxns = [] \<rparr>)))"


section \<open>Action builder: the lending instruction\<close>

definition pushLending :: "instruction \<Rightarrow> SolendActionCore \<Rightarrow> SolendActionCore" where
  "pushLending ix this = this\<lparr> lendingIxs := lendingIxs this @ [WithSigners [] ix] \<rparr>"

definition addForgiveIx :: "SolendActionCore \<Rightarrow> SolendActionCore" where
  "addForgiveIx this =
     pushLending
       (ForgiveDebtInstruction (obligationAddress this) (address (reserve this))
          (poolAddress (pool this)) (poolOwner (pool this)) (amount this) (programId this))
       this"

definition addDepositIx :: "SolendActionCore \<Rightarrow> SolendActionCore" where
  "addDepositIx this =
     (let accounts =
            [userTokenAccountAddress this, userCollateralAccountAddress this,
             address (reserve this), liquidityAddress (reserve this),
             cTokenMint (reserve this), poolAddress (pool this),
             authorityAddress (pool this), cTokenLiquidityAddress (reserve this),
             obligationAddress this, publicKey this, pythOracle (reserve this),
             switchboardOracle (reserve this), publicKey this, programId this]
      in pushLending
           (if amount this = U64_MAX
            then DepositMaxReserveLiquidityAndObligationCollateralInstruction accounts
            else DepositReserveLiquidityAndObligationCollateralInstruction (amount this)
                   accounts)
           this)"

definition addDepositReserveLiquidityIx :: "SolendActionCore \<Rightarrow> SolendActionCore" where
  "addDepositReserveLiquidityIx this =
     pushLending
       (DepositReserveLiquidityInstruction (amount this)
          [userTokenAccountAddress this, userCollateralAccountAddress this,
           address (reserve this), liquidityAddress (reserve this),
           cTokenMint (reserve this), poolAddress (pool this),
           authorityAddress (pool this), publicKey this, programId this])
       this"

definition addRedeemReserveCollateralIx :: "SolendActionCore \<Rightarrow> SolendActionCore" where
  "addRedeemReserveCollateralIx this =
     pushLending
       (RedeemReserveCollateralInstruction (amount this)
          [userCollateralAccountAddress this, userTokenAccountAddress this,
           address (reserve this), cTokenMint (reserve this),
           liquidityAddress (reserve this), poolAddress (pool this),
           authorityAddress (pool this), publicKey this, programId this])
       this"

definition addWithdrawObligationCollateralIx :: "SolendActionCore \<Rightarrow> SolendActionCore" where
  "addWithdrawObligationCollateralIx this =
     pushLending
       (WithdrawObligationCollateralInstruction (amount this)
          [cTokenLiquidityAddress (reserve this), userCollateralAccountAddress this,
           address (reserve this), obligationAddress this, poolAddress (pool this),
           authorityAddress (pool this), publicKey this, programId this]
          (depositReserves this))
       this"

definition addDepositObligationCollateralIx :: "SolendActionCore \<Rightarrow> SolendActionCore" where
  "addDepositObligationCollateralIx this =
     pushLending
       (DepositObligationCollateralInstruction (amount this)
          [userCollateralAccountAddress this, cTokenLiquidityAddress (reserve this),
           address (reserve this), obligationAddress this, poolAddress (pool this),
           publicKey this, publicKey this, programId this])
       this"

definition addBorrowIx :: "SolendActionCore \<Rightarrow> SolendActionCore" where
  "addBorrowIx this =
     pushLending
       (BorrowObligationLiquidityInstruction (amount this)
          [liquidityAddress (reserve this), userTokenAccountAddress this,
           address (reserve this), liquidityFeeReceiverAddress (reserve this),
           obligationAddress this, poolAddress (pool this),
           authorityAddress (pool this), publicKey this, programId this]
          (depositReserves this) (hostAta this))
       this"

definition addWithdrawIx :: "SolendActionCore \<Rightarrow> SolendActionCore" where
  "addWithdrawIx this =
     pushLending
       (if amount this = U64_MAX
        then WithdrawObligationCollateralAndRedeemReserveLiquidity U64_MAX
               [cTokenLiquidityAddress (reserve this), userCollateralAccountAddress this,
                address (reserve this), obligationAddress this, poolAddress (pool this),
                authorityAddress (pool this), userTokenAccountAddress this,
                cTokenMint (reserve this), liquidityAddress (reserve this),
                publicKey this, publicKey this, programId this]
               (depositReserves this)
        else WithdrawExact (amount this)
               [cTokenLiquidityAddress (reserve this), userCollateralAccountAddress this,
                address (reserve this), userTokenAccountAddress this,
                cTokenMint (reserve this), liquidityAddress (reserve this),
                obligationAddress this, poolAddress (pool this),
                authorityAddress (pool this), publicKey this, publicKey this,
                programId this]
               (depositReserves this))
       this"

definition addRepayIx :: "SolendActionCore \<Rightarrow> SolendActionCore" where
  "addRepayIx this =
     (let accounts =
            [userTokenAccountAddress this, liquidityAddress (reserve this),
             address (reserve this), obligationAddress this, poolAddress (pool this),
             publicKey this, programId this]
      in pushLending
           (if amount this = U64_MAX
            then RepayMaxObligationLiquidityInstruction accounts
            else RepayObligationLiquidityInstruction (amount this) accounts)
           this)"

definition addLiquidateIx :: "ReserveType \<Rightarrow> SolendActionCore \<Rightarrow> error + SolendActionCore" where
  "addLiquidateIx repayReserve this =
     (case (userRepayCollateralAccountAddress this, userRepayTokenAccountAddress this) of
        (Some _, Some repayToken) \<Rightarrow>
          Inr (pushLending
                 (LiquidateObligationAndRedeemReserveCollateral (amount this)
                    [repayToken, userCollateralAccountAddress this,
                     userTokenAccountAddress this, address repayReserve,
                     liquidityAddress repayReserve, address (reserve this),
                     cTokenMint (reserve this), cTokenLiquidityAddress (reserve this),
                     liquidityAddress (reserve this), feeReceiverAddress (reserve this),
                     obligationAddress this, poolAddress (pool this),
                     authorityAddress (pool this), publicKey this, programId this])
                 this)
      | _ \<Rightarrow> Inl NotInitializedWithWithdrawReserve)"


section \<open>Action builder: support instructions\<close>

definition addWrapIx :: "SolendActionCore \<Rightarrow> error + SolendActionCore" where
  "addWrapIx this =
     (case (wrappedAta this, token2022Mint this) of
        (Some wrapped, Some mint2022) \<Rightarrow>
          Inr (this\<lparr> preIxs := preIxs this @
                 [WithSigners []
                    (CreateAssociatedTokenAccountIdempotentInstruction (publicKey this)
                       (userTokenAccountAddress this) (publicKey this)
                       (mintAddress (reserve this)) None),
                  WithSigners []
                    (CreateDepositAndMintWrapperTokensInstruction (publicKey this) wrapped
                       mint2022 (amount this))] \<rparr>)
      | _ \<Rightarrow> Inl WrappedAtaNotInitialized)"

definition addUnwrapIx :: "SolendActionCore \<Rightarrow> error + SolendActionCore" where
  "addUnwrapIx this =
     (case (wrappedAta this, token2022Mint this) of
        (Some wrapped, Some mint2022) \<Rightarrow>
          Inr (this\<lparr> preIxs := preIxs this @
                 [WithSigners []
                    (CreateAssociatedTokenAccountIdempotentInstruction (publicKey this)
                       wrapped (publicKey this) mint2022 (Some TOKEN_2022_PROGRAM_ID))],
                      postIxs := postIxs this @
                 [WithSigners []
                    (CreateWithdrawAndBurnWrapperTokensInstruction (publicKey this) wrapped
                       mint2022 (amount this))] \<rparr>)
      | _ \<Rightarrow> Inl WrappedAtaNotInitialized)"

text \<open>\<^verbatim>\<open>private async addWrapUnwrapLiquidateIxs() {}\<close>\<close>

definition addWrapUnwrapLiquidateIxs :: "SolendActionCore \<Rightarrow> SolendActionCore" where
  "addWrapUnwrapLiquidateIxs this = this"

definition buildPullPriceTxns ::
  "SdkEnv \<Rightarrow> pubkey list \<Rightarrow> SolendActionCore \<Rightarrow> error + SolendActionCore" where
  "buildPullPriceTxns env oracleKeys this =
     (case pullPriceServices env oracleKeys (jitoTipAmount this) of
        Inl e \<Rightarrow> Inl e
      | Inr (instructions, txns) \<Rightarrow>
          Inr (this\<lparr> preIxs := preIxs this @ map (WithSigners []) instructions,
                      pullPriceTxns := pullPriceTxns this @ txns \<rparr>))"

text \<open>
  \<^verbatim>\<open>reserveMap[address]\<close>: the \<^verbatim>\<open>reduce\<close> lets a later reserve of the pool with the
  same address replace an earlier one.
\<close>

definition reserveMap :: "PoolType \<Rightarrow> pubkey \<Rightarrow> ReserveType option" where
  "reserveMap pl a = find (\<lambda>r. address r = a) (rev (reserves pl))"

text \<open>
  The three \<^verbatim>\<open>map\<close>s over the reserve addresses that make the oracle keys; reading a
  field of a missing \<^verbatim>\<open>reserveMap[address]\<close> is a \<^verbatim>\<open>TypeError\<close>.
\<close>

fun oracleFields ::
  "PoolType \<Rightarrow> (ReserveType \<Rightarrow> pubkey) \<Rightarrow> pubkey list \<Rightarrow> error + pubkey list" where
  "oracleFields pl field [] = Inr []"
| "oracleFields pl field (a # as) =
     (case reserveMap pl a of
        None \<Rightarrow> Inl (TypeError ''reserveMap[address] is undefined'')
      | Some r \<Rightarrow>
          (case oracleFields pl field as of
             Inl e \<Rightarrow> Inl e
           | Inr ks \<Rightarrow> Inr (field r # ks)))"

fun refreshReserveIxs ::
  "PoolType \<Rightarrow> pubkey \<Rightarrow> pubkey list \<Rightarrow> error + entry list" where
  "refreshReserveIxs pl pid [] = Inr []"
| "refreshReserveIxs pl pid (reserveAddr # as) =
     (case find (\<lambda>r. address r = reserveAddr) (reserves pl) of
        None \<Rightarrow> Inl (CouldNotFindAsset reserveAddr)
      | Some reserveInfo \<Rightarrow>
          (case refreshReserveIxs pl pid as of
             Inl e \<Rightarrow> Inl e
           | Inr ixs \<Rightarrow>
               Inr (Plain (RefreshReserveInstruction reserveAddr pid
                             (pythOracle reserveInfo) (switchboardOracle reserveInfo)
                             (extraOracle reserveInfo)) # ixs)))"

definition addRefreshReservesIxs :: "SdkEnv \<Rightarrow> SolendActionCore \<Rightarrow> error + SolendActionCore" where
  "addRefreshReservesIxs env this =
     (let allReserveAddresses =
            arrayFromSet (depositReserves this @ borrowReserves this
                          @ [address (reserve this)])
      in case oracleFields (pool this) pythOracle allReserveAddresses of
           Inl e \<Rightarrow> Inl e
         | Inr pyths \<Rightarrow>
       (case oracleFields (pool this) switchboardOracle allReserveAddresses of
           Inl e \<Rightarrow> Inl e
         | Inr switchboards \<Rightarrow>
       (case oracleFields (pool this)
               (\<lambda>r. case extraOracle r of Some x \<Rightarrow> x | None \<Rightarrow> NULL_ORACLE)
               allReserveAddresses of
           Inl e \<Rightarrow> Inl e
         | Inr extras \<Rightarrow>
       (case buildPullPriceTxns env (pyths @ switchboards @ extras) this of
           Inl e \<Rightarrow> Inl e
         | Inr this' \<Rightarrow>
       (case refreshReserveIxs (pool this') (programId this') allReserveAddresses of
           Inl e \<Rightarrow> Inl e
         | Inr ixs \<Rightarrow> Inr (this'\<lparr> setupIxs := setupIxs this' @ ixs \<rparr>))))))"

definition addRefreshObligationIxs :: "SolendActionCore \<Rightarrow> SolendActionCore" where
  "addRefreshObligationIxs this =
     this\<lparr> setupIxs := setupIxs this @
       [Plain (RefreshObligationInstruction (obligationAddress this) (depositReserves this)
                 (borrowReserves this) (programId this))] \<rparr>"

definition addObligationIxs :: "SdkEnv \<Rightarrow> SolendActionCore \<Rightarrow> error + SolendActionCore" where
  "addObligationIxs env this =
     (case obligationAccountInfo this of
        Some _ \<Rightarrow> Inr this
      | None \<Rightarrow>
          (case getMinimumBalanceForRentExemption env (OBLIGATION_SIZE env) of
             Inl e \<Rightarrow> Inl e
           | Inr obligationAccountInfoRentExempt \<Rightarrow>
               Inr (this\<lparr> setupIxs := setupIxs this @
                      [Plain (CreateAccountWithSeed (publicKey this) (obligationAddress this)
                                (publicKey this) (seed this) obligationAccountInfoRentExempt
                                (OBLIGATION_SIZE env) (programId this)),
                       Plain (InitObligationInstruction (obligationAddress this)
                                (poolAddress (pool this)) (publicKey this)
                                (programId this))] \<rparr>)))"

text \<open>
  The test that sends account creations to \<^verbatim>\<open>preIxs\<close>:
  \<^verbatim>\<open>this.positions === POSITION_LIMIT && this.hostAta && !this.lookupTableAccount\<close>.
\<close>

definition atPositionLimit :: "SdkEnv \<Rightarrow> SolendActionCore \<Rightarrow> bool" where
  "atPositionLimit env this =
     (positions this = POSITION_LIMIT env \<and> hostAta this \<noteq> None
      \<and> lookupTableAccount this = None)"

definition addAtaIxs :: "SdkEnv \<Rightarrow> SolendActionCore \<Rightarrow> error + SolendActionCore" where
  "addAtaIxs env this =
     (if mintAddress (reserve this) \<noteq> NATIVE_MINT then
        (case getAccountInfo env (userTokenAccountAddress this) of
           Inl e \<Rightarrow> Inl e
         | Inr (Some userTokenAccountInfo) \<Rightarrow> Inr this
         | Inr None \<Rightarrow>
             (let createUserTokenAccountIx =
                    Plain (CreateAssociatedTokenAccountInstruction (publicKey this)
                             (userTokenAccountAddress this) (publicKey this)
                             (mintAddress (reserve this)))
              in if atPositionLimit env this
                 then Inr (this\<lparr> preIxs := preIxs this @ [createUserTokenAccountIx] \<rparr>)
                 else Inr (this\<lparr> setupIxs := setupIxs this @ [createUserTokenAccountIx] \<rparr>)))
      else Inr this)"

definition addCAtaIxs :: "SdkEnv \<Rightarrow> SolendActionCore \<Rightarrow> error + SolendActionCore" where
  "addCAtaIxs env this =
     (case getAccountInfo env (userCollateralAccountAddress this) of
        Inl e \<Rightarrow> Inl e
      | Inr (Some userCollateralAccountInfo) \<Rightarrow> Inr this
      | Inr None \<Rightarrow>
          (let createUserCollateralAccountIx =
                 Plain (CreateAssociatedTokenAccountInstruction (publicKey this)
                          (userCollateralAccountAddress this) (publicKey this)
                          (cTokenMint (reserve this)))
           in if atPositionLimit env this
              then Inr (this\<lparr> preIxs := preIxs this @ [createUserCollateralAccountIx] \<rparr>)
              else Inr (this\<lparr> setupIxs := setupIxs this @ [createUserCollateralAccountIx] \<rparr>)))"


section \<open>Action builder: native-mint funding (\<^verbatim>\<open>updateWSOLAccount\<close>)\<close>

text \<open>
  The amount of a full repay:
  \<^verbatim>\<open>new BN(Math.floor(new BigNumber(borrowed).multipliedBy(current).dividedBy(snapshot)
  .dividedBy(WAD).plus(SOL_PADDING_FOR_INTEREST).toNumber()).toString())\<close>.
  The string of a number from \<open>10 ^ 21\<close> on is in exponent notation, and a quotient by
  zero is \<^verbatim>\<open>Infinity\<close> or \<^verbatim>\<open>NaN\<close>; \<^verbatim>\<open>BN\<close> reads none of these strings, which
  is taken here as its error \<^verbatim>\<open>Invalid character\<close>.
\<close>

definition safeRepayAmount :: "nat \<Rightarrow> nat \<Rightarrow> nat \<Rightarrow> error + int" where
  "safeRepayAmount borrowed current snapshot =
     (if snapshot = 0 then Inl InvalidCharacter
      else
        (let n = \<lfloor>toNumber
                   (dividedBy (dividedBy (of_nat borrowed * of_nat current) (of_nat snapshot))
                      (of_nat WAD)
                    + of_nat SOL_PADDING_FOR_INTEREST)\<rfloor>
         in if 10 ^ 21 \<le> n then Inl InvalidCharacter else Inr n))"

definition safeRepay :: "SdkEnv \<Rightarrow> ActionType \<Rightarrow> SolendActionCore \<Rightarrow> error + int" where
  "safeRepay env action this =
     (case obligationAccountInfo this of
        None \<Rightarrow> Inr (amount this)
      | Some obligation \<Rightarrow>
          if action = Repay \<and> amount this = U64_MAX then
            (case getAccountInfo env (address (reserve this)) of
               Inl e \<Rightarrow> Inl e
             | Inr None \<Rightarrow> Inl (UnableToFetchReserve (address (reserve this)))
             | Inr (Some buffer) \<Rightarrow>
                 (case parseReserve env buffer of
                    None \<Rightarrow> Inl (UnableToParseReserve (address (reserve this)))
                  | Some currentRate \<Rightarrow>
                      (case find (\<lambda>b. borrowReserve b = address (reserve this))
                              (borrows obligation) of
                         None \<Rightarrow> Inl (UnableToFindBorrow (owner obligation))
                       | Some b \<Rightarrow>
                           safeRepayAmount (borrowedAmountWads b) currentRate
                             (cumulativeBorrowRateWads b))))
          else Inr (amount this))"

definition isSendAction :: "ActionType \<Rightarrow> bool" where
  "isSendAction action = (action = Deposit \<or> action = Repay \<or> action = Mint)"

definition updateWSOLAccount ::
  "SdkEnv \<Rightarrow> ActionType \<Rightarrow> SolendActionCore \<Rightarrow> error + SolendActionCore" where
  "updateWSOLAccount env action this =
     (if mintAddress (reserve this) \<noteq> NATIVE_MINT then Inr this
      else
        case safeRepay env action this of
          Inl e \<Rightarrow> Inl e
        | Inr repayAmount \<Rightarrow>
        (case getAccountInfo env (userTokenAccountAddress this) of
          Inl e \<Rightarrow> Inl e
        | Inr userWSOLAccountInfo \<Rightarrow>
        (case getMinimumBalanceForRentExemptAccount env of
          Inl e \<Rightarrow> Inl e
        | Inr rentExempt \<Rightarrow>
            (let sendAction = isSendAction action;
                 transferLamportsIx =
                   Transfer (publicKey this) (userTokenAccountAddress this)
                     (numberPlus
                        (if userWSOLAccountInfo \<noteq> None then 0 else of_nat rentExempt)
                        (if sendAction then parseInt repayAmount else 0));
                 closeWSOLAccountIx =
                   CreateCloseAccountInstruction (userTokenAccountAddress this)
                     (publicKey this) (publicKey this);
                 (pre, post) =
                   (if userWSOLAccountInfo \<noteq> None then
                      (if sendAction
                       then ([transferLamportsIx, SyncNative (userTokenAccountAddress this)], [])
                       else ([transferLamportsIx], [closeWSOLAccountIx]))
                    else
                      ([transferLamportsIx,
                        CreateAssociatedTokenAccountInstruction (publicKey this)
                          (userTokenAccountAddress this) (publicKey this) NATIVE_MINT],
                       [closeWSOLAccountIx]))
             in if atPositionLimit env this
                then Inr (this\<lparr> preIxs := preIxs this @ map Plain pre,
                                  postTxnIxs := postTxnIxs this @ map Plain post \<rparr>)
                else Inr (this\<lparr> setupIxs := setupIxs this @ map Plain pre,
                                  cleanupIxs := cleanupIxs this @ map Plain post \<rparr>)))))"


section \<open>Action builder: \<^verbatim>\<open>addSupportIxs\<close> and the builds\<close>

text \<open>One case of the \<^verbatim>\<open>switch (support)\<close>.\<close>

fun resolveSupport ::
  "SdkEnv \<Rightarrow> ActionType \<Rightarrow> SupportType \<Rightarrow> SolendActionCore \<Rightarrow> error + SolendActionCore" where
  "resolveSupport env action CreateObligation this = addObligationIxs env this"
| "resolveSupport env action Wrap this =
     (if wrappedAta this \<noteq> None then addWrapIx this else Inr this)"
| "resolveSupport env action Unwrap this =
     (if wrappedAta this \<noteq> None then addUnwrapIx this else Inr this)"
| "resolveSupport env action RefreshReserves this = addRefreshReservesIxs env this"
| "resolveSupport env action RefreshObligation this = Inr (addRefreshObligationIxs this)"
| "resolveSupport env action CAta this = addCAtaIxs env this"
| "resolveSupport env action Ata this = addAtaIxs env this"
| "resolveSupport env action WrapUnwrapLiquidate this =
     (if wrappedAta this \<noteq> None then Inr (addWrapUnwrapLiquidateIxs this) else Inr this)"
| "resolveSupport env action Wsol this = updateWSOLAccount env action this"

fun resolveSupports ::
  "SdkEnv \<Rightarrow> ActionType \<Rightarrow> SupportType list \<Rightarrow> SolendActionCore
     \<Rightarrow> error + SolendActionCore" where
  "resolveSupports env action [] this = Inr this"
| "resolveSupports env action (support # supports) this =
     (case resolveSupport env action support this of
        Inl e \<Rightarrow> Inl e
      | Inr this' \<Rightarrow> resolveSupports env action supports this')"

definition addSupportIxs ::
  "SdkEnv \<Rightarrow> ActionType \<Rightarrow> SolendActionCore \<Rightarrow> error + SolendActionCore" where
  "addSupportIxs env action this =
     resolveSupports env action (ACTION_SUPPORT_REQUIREMENTS action) this"

text \<open>\<^verbatim>\<open>await\<close> of a step that may throw, then the rest.\<close>

definition andThen :: "error + 'a \<Rightarrow> ('a \<Rightarrow> error + 'b) \<Rightarrow> error + 'b" where
  "andThen r f = (case r of Inl e \<Rightarrow> Inl e | Inr x \<Rightarrow> f x)"

definition buildForgiveTxns ::
  "SdkEnv \<Rightarrow> PoolType \<Rightarrow> ReserveType \<Rightarrow> int \<Rightarrow> pubkey \<Rightarrow> pubkey \<Rightarrow> string
     \<Rightarrow> pubkey option \<Rightarrow> error + SolendActionCore" where
  "buildForgiveTxns env pl rsv amt wallet obligationAddr environment lookupTableAddress =
     andThen (initialize env pl rsv Deposit amt wallet environment (Some obligationAddr)
                None None lookupTableAddress None None None)
       (\<lambda>axn. andThen (addSupportIxs env Forgive axn) (\<lambda>axn. Inr (addForgiveIx axn)))"

definition buildDepositTxns ::
  "SdkEnv \<Rightarrow> PoolType \<Rightarrow> ReserveType \<Rightarrow> int \<Rightarrow> pubkey \<Rightarrow> string \<Rightarrow> pubkey option
     \<Rightarrow> string option \<Rightarrow> pubkey option \<Rightarrow> pubkey option \<Rightarrow> error + SolendActionCore" where
  "buildDepositTxns env pl rsv amt wallet environment obligationAddr obligationSeed
     lookupTableAddress token2022 =
     andThen (initialize env pl rsv Deposit amt wallet environment obligationAddr None
                obligationSeed lookupTableAddress None None token2022)
       (\<lambda>axn. andThen (addSupportIxs env Deposit axn) (\<lambda>axn. Inr (addDepositIx axn)))"

definition buildBorrowTxns ::
  "SdkEnv \<Rightarrow> PoolType \<Rightarrow> ReserveType \<Rightarrow> int \<Rightarrow> pubkey \<Rightarrow> string \<Rightarrow> pubkey option
     \<Rightarrow> pubkey option \<Rightarrow> pubkey option \<Rightarrow> nat option \<Rightarrow> pubkey option
     \<Rightarrow> error + SolendActionCore" where
  "buildBorrowTxns env pl rsv amt wallet environment customObligationAddress host
     lookupTableAddress tipAmount token2022 =
     andThen (initialize env pl rsv Borrow amt wallet environment customObligationAddress
                host None lookupTableAddress tipAmount None token2022)
       (\<lambda>axn. andThen (addSupportIxs env Borrow axn) (\<lambda>axn. Inr (addBorrowIx axn)))"

definition buildDepositReserveLiquidityTxns ::
  "SdkEnv \<Rightarrow> PoolType \<Rightarrow> ReserveType \<Rightarrow> int \<Rightarrow> pubkey \<Rightarrow> string \<Rightarrow> pubkey option
     \<Rightarrow> pubkey option \<Rightarrow> error + SolendActionCore" where
  "buildDepositReserveLiquidityTxns env pl rsv amt wallet environment lookupTableAddress
     token2022 =
     andThen (initialize env pl rsv Mint amt wallet environment None None None
                lookupTableAddress None None token2022)
       (\<lambda>axn. andThen (addSupportIxs env Mint axn)
                 (\<lambda>axn. Inr (addDepositReserveLiquidityIx axn)))"

definition buildRedeemReserveCollateralTxns ::
  "SdkEnv \<Rightarrow> PoolType \<Rightarrow> ReserveType \<Rightarrow> int \<Rightarrow> pubkey \<Rightarrow> string \<Rightarrow> pubkey option
     \<Rightarrow> pubkey option \<Rightarrow> error + SolendActionCore" where
  "buildRedeemReserveCollateralTxns env pl rsv amt wallet environment lookupTableAddress
     token2022 =
     andThen (initialize env pl rsv Redeem amt wallet environment None None None
                lookupTableAddress None None token2022)
       (\<lambda>axn. andThen (addSupportIxs env Redeem axn)
                 (\<lambda>axn. Inr (addRedeemReserveCollateralIx axn)))"

definition buildDepositObligationCollateralTxns ::
  "SdkEnv \<Rightarrow> PoolType \<Rightarrow> ReserveType \<Rightarrow> int \<Rightarrow> pubkey \<Rightarrow> string \<Rightarrow> pubkey option
     \<Rightarrow> pubkey option \<Rightarrow> error + SolendActionCore" where
  "buildDepositObligationCollateralTxns env pl rsv amt wallet environment
     lookupTableAddress customObligationAddress =
     andThen (initialize env pl rsv DepositCollateral amt wallet environment
                customObligationAddress None None lookupTableAddress None None None)
       (\<lambda>axn. andThen (addSupportIxs env DepositCollateral axn)
                 (\<lambda>axn. Inr (addDepositObligationCollateralIx axn)))"

definition buildWithdrawCollateralTxns ::
  "SdkEnv \<Rightarrow> PoolType \<Rightarrow> ReserveType \<Rightarrow> int \<Rightarrow> pubkey \<Rightarrow> string \<Rightarrow> pubkey option
     \<Rightarrow> pubkey option \<Rightarrow> error + SolendActionCore" where
  "buildWithdrawCollateralTxns env pl rsv amt wallet environment lookupTableAddress
     customObligationAddress =
     andThen (initialize env pl rsv WithdrawCollateral amt wallet environment
                customObligationAddress None None lookupTableAddress None None None)
       (\<lambda>axn. andThen (addSupportIxs env WithdrawCollateral axn)
                 (\<lambda>axn. Inr (addWithdrawIx axn)))"

definition buildWithdrawTxns ::
  "SdkEnv \<Rightarrow> PoolType \<Rightarrow> ReserveType \<Rightarrow> int \<Rightarrow> pubkey \<Rightarrow> string \<Rightarrow> pubkey option
     \<Rightarrow> string option \<Rightarrow> pubkey option \<Rightarrow> nat option \<Rightarrow> pubkey option
     \<Rightarrow> error + SolendActionCore" where
  "buildWithdrawTxns env pl rsv amt wallet environment obligationAddr obligationSeed
     lookupTableAddress tipAmount token2022 =
     andThen (initialize env pl rsv Withdraw amt wallet environment obligationAddr None
                obligationSeed lookupTableAddress tipAmount None token2022)
       (\<lambda>axn. andThen (addSupportIxs env Withdraw axn) (\<lambda>axn. Inr (addWithdrawIx axn)))"

definition buildRepayTxns ::
  "SdkEnv \<Rightarrow> PoolType \<Rightarrow> ReserveType \<Rightarrow> int \<Rightarrow> pubkey \<Rightarrow> string \<Rightarrow> pubkey option
     \<Rightarrow> pubkey option \<Rightarrow> pubkey option \<Rightarrow> error + SolendActionCore" where
  "buildRepayTxns env pl rsv amt wallet environment customObligationAddress
     lookupTableAddress token2022 =
     andThen (initialize env pl rsv Repay amt wallet environment customObligationAddress
                None None lookupTableAddress None None token2022)
       (\<lambda>axn. andThen (addSupportIxs env Repay axn) (\<lambda>axn. Inr (addRepayIx axn)))"

definition buildLiquidateTxns ::
  "SdkEnv \<Rightarrow> PoolType \<Rightarrow> ReserveType \<Rightarrow> ReserveType \<Rightarrow> int \<Rightarrow> pubkey \<Rightarrow> string
     \<Rightarrow> pubkey option \<Rightarrow> pubkey option \<Rightarrow> nat option \<Rightarrow> pubkey option
     \<Rightarrow> error + SolendActionCore" where
  "buildLiquidateTxns env pl repayReserve withdrawReserve amt wallet environment
     customObligationAddress lookupTableAddress tipAmount token2022 =
     andThen (initialize env pl withdrawReserve Liquidate amt wallet environment
                customObligationAddress None None lookupTableAddress tipAmount
                (Some repayReserve) token2022)
       (\<lambda>axn. andThen (addSupportIxs env Liquidate axn) (addLiquidateIx repayReserve))"


section \<open>Notions used to state the properties\<close>

text \<open>The events of a loop or scan result.\<close>

definition trace :: "'a \<times> 'e list \<times> 'w \<Rightarrow> 'e list" where
  "trace r = fst (snd r)"

text \<open>The obligations passed to \<^verbatim>\<open>liquidateAndRedeem\<close>, in order.\<close>

fun liquidated :: "'i event list \<Rightarrow> 'i ParsedObligation list" where
  "liquidated [] = []"
| "liquidated (LiquidateAndRedeem a repaySym withdrawSym ob # evs) = ob # liquidated evs"
| "liquidated (_ # evs) = liquidated evs"

text \<open>
  No price can be read for a reserve: its oracle account is missing, the owner of the
  account is none of the two Switchboard programs, or the decoder's value is missing or
  zero.
\<close>

definition unresolved :: "OracleEnv \<Rightarrow> AccountInfo option \<Rightarrow> bool" where
  "unresolved env accountInfo =
     (case accountInfo of
        None \<Rightarrow> True
      | Some i \<Rightarrow>
          if accountOwner i = SWITCHBOARD_V1_ADDRESS
          then (case decodeV1 env (drop 1 (accountData i)) of
                  Inl _ \<Rightarrow> False | Inr p \<Rightarrow> falsy p)
          else if accountOwner i = SWITCHBOARD_V2_ADDRESS
          then (case decodeV2 env i of Inl _ \<Rightarrow> False | Inr p \<Rightarrow> falsy p)
          else True)"

text \<open>A builder that holds no instruction at all.\<close>

definition emptyBuckets :: "SolendActionCore \<Rightarrow> bool" where
  "emptyBuckets axn =
     (setupIxs axn = [] \<and> preIxs axn = [] \<and> lendingIxs axn = [] \<and> postIxs axn = []
      \<and> postTxnIxs axn = [] \<and> cleanupIxs axn = [] \<and> pullPriceTxns axn = [])"

text \<open>The deposit reserves and the borrow reserves of a loaded obligation, as sets.\<close>

definition reservesOf :: "Obligation option \<Rightarrow> pubkey set \<times> pubkey set" where
  "reservesOf details =
     (case details of
        None \<Rightarrow> ({}, {})
      | Some d \<Rightarrow> (depositReserve ` set (deposits d), borrowReserve ` set (borrows d)))"

text \<open>
  The two encodings of a deposit, withdraw or repay: the whole-balance one (for a
  withdraw, the redeeming instruction carrying \<^verbatim>\<open>U64_MAX\<close>) and the one that carries
  a literal amount.
\<close>

fun isMaxVariant :: "instruction \<Rightarrow> bool" where
  "isMaxVariant (DepositMaxReserveLiquidityAndObligationCollateralInstruction _) = True"
| "isMaxVariant (WithdrawObligationCollateralAndRedeemReserveLiquidity a _ _) = (a = U64_MAX)"
| "isMaxVariant (RepayMaxObligationLiquidityInstruction _) = True"
| "isMaxVariant _ = False"

fun literalAmount :: "instruction \<Rightarrow> int option" where
  "literalAmount (DepositReserveLiquidityAndObligationCollateralInstruction a _) = Some a"
| "literalAmount (WithdrawExact a _ _) = Some a"
| "literalAmount (RepayObligationLiquidityInstruction a _) = Some a"
| "literalAmount _ = None"

text \<open>The builder \<open>this'\<close> is \<open>this\<close> with one more lending instruction, \<open>ix\<close>.\<close>

definition appendsOneLending ::
  "SolendActionCore \<Rightarrow> SolendActionCore \<Rightarrow> instruction \<Rightarrow> bool" where
  "appendsOneLending this this' ix =
     (this' = this\<lparr> lendingIxs := lendingIxs this @ [WithSigners [] ix] \<rparr>)"

definition selectedBySentinel :: "SolendActionCore \<Rightarrow> instruction \<Rightarrow> bool" where
  "selectedBySentinel this ix =
     (if amount this = U64_MAX
      then isMaxVariant ix \<and> literalAmount ix = None
      else \<not> isMaxVariant ix \<and> literalAmount ix = Some (amount this))"


text \<open>
  A finished build holds exactly one lending instruction, the variant that the amount
  \<open>amt\<close> selects.
\<close>

definition oneLendingBySentinel :: "int \<Rightarrow> SolendActionCore \<Rightarrow> bool" where
  "oneLendingBySentinel amt built =
     (\<exists>ix. lendingIxs built = [WithSigners [] ix]
          \<and> (if amt = U64_MAX then isMaxVariant ix \<and> literalAmount ix = None
              else \<not> isMaxVariant ix \<and> literalAmount ix = Some amt))"


section \<open>Example inputs\<close>

definition demoOracleEnv :: OracleEnv where
  "demoOracleEnv =
     \<lparr> fetchAccountInfo =
         (\<lambda>a. if a = ''feed-unknown''
               then Inr (Some \<lparr> accountOwner = ''somebody-else'', accountData = [7, 8] \<rparr>)
               else if a = ''feed-v2''
               then Inr (Some \<lparr> accountOwner = SWITCHBOARD_V2_ADDRESS,
                                  accountData = [7, 8] \<rparr>)
               else Inr None),
       decodeV1 = (\<lambda>bytes. Inr None),
       decodeV2 = (\<lambda>i. Inr (Some (3 / 2))) \<rparr>"

definition demoConfigReserve :: "string \<Rightarrow> MarketConfigReserve" where
  "demoConfigReserve feed =
     \<lparr> liquidityToken =
         \<lparr> tokenSymbol = ''USDC'', tokenMint = ''usdc-mint'', tokenDecimals = 6 \<rparr>,
       configAddress = ''usdc-reserve'',
       switchboardFeedAddress = feed \<rparr>"

text \<open>
  An obligation of the example scan is its debt: unhealthy above 100, unreadable at 0;
  a liquidation lowers it by 60. The liquidator's wallet holds 5 of every token.
\<close>

definition demoRefreshed :: "nat \<Rightarrow> RefreshedObligation" where
  "demoRefreshed debt =
     \<lparr> borrowedValue = of_nat debt,
       unhealthyBorrowValue = 100,
       refreshedDeposits =
         [\<lparr> depositMarketValue = 10, depositSymbol = ''SOL'' \<rparr>,
          \<lparr> depositMarketValue = 50, depositSymbol = ''ETH'' \<rparr>,
          \<lparr> depositMarketValue = 5, depositSymbol = ''BTC'' \<rparr>],
       refreshedBorrows =
         [\<lparr> borrowMarketValue = 30, borrowMintAddress = ''usdt-mint'',
            borrowSymbol = ''USDT'' \<rparr>,
          \<lparr> borrowMarketValue = 80, borrowMintAddress = ''usdc-mint'',
            borrowSymbol = ''USDC'' \<rparr>] \<rparr>"

definition demoLiquidatorEnv :: "(nat, nat) LiquidatorEnv" where
  "demoLiquidatorEnv =
     \<lparr> calculateRefreshedObligation =
         (\<lambda>debt. if debt = 0 then Inl (External ''account not found'')
                  else Inr (demoRefreshed debt)),
       sortBorrows = (\<lambda>bs. rev (sort_key borrowMarketValue bs)),
       getWalletTokenData = (\<lambda>w mint sym. Inr 5),
       liquidateAndRedeem = (\<lambda>w amt repaySym withdrawSym ob. Inr (Suc w)),
       refetchObligation = (\<lambda>w ob. Inr (Some (ob\<lparr> info := info ob - 60 \<rparr>))) \<rparr>"

definition demoParsed :: "string \<Rightarrow> nat \<Rightarrow> nat ParsedObligation" where
  "demoParsed k debt = \<lparr> pubkey = k, info = debt \<rparr>"

definition demoReserve :: "pubkey \<Rightarrow> ReserveType" where
  "demoReserve a =
     \<lparr> address = a, mintAddress = a @ ''-mint'', cTokenMint = a @ ''-cmint'',
       liquidityAddress = a @ ''-liquidity'', cTokenLiquidityAddress = a @ ''-collateral'',
       pythOracle = a @ ''-pyth'', switchboardOracle = a @ ''-switchboard'',
       extraOracle = None, liquidityFeeReceiverAddress = a @ ''-fees'',
       feeReceiverAddress = a @ ''-fee-receiver'' \<rparr>"

definition solReserve :: ReserveType where
  "solReserve = (demoReserve ''SOL'')\<lparr> mintAddress := NATIVE_MINT \<rparr>"

definition demoPool :: PoolType where
  "demoPool =
     \<lparr> poolAddress = ''pool'', poolOwner = ''pool-owner'', authorityAddress = ''authority'',
       reserves = map demoReserve [''A'', ''B'', ''C'', ''D'', ''E'', ''F'', ''G'']
                  @ [solReserve] \<rparr>"

definition demoBorrow :: "pubkey \<Rightarrow> nat \<Rightarrow> nat \<Rightarrow> ObligationLiquidity" where
  "demoBorrow a borrowed snapshot =
     \<lparr> borrowReserve = a, cumulativeBorrowRateWads = snapshot,
       borrowedAmountWads = borrowed \<rparr>"

text \<open>An obligation that deposits and borrows each of the reserves A, B and C.\<close>

definition demoObligation :: Obligation where
  "demoObligation =
     \<lparr> owner = ''user'',
       deposits = map (\<lambda>a. \<lparr> depositReserve = a \<rparr>) [''A'', ''B'', ''C''],
       borrows = map (\<lambda>a. demoBorrow a (1000 * 10 ^ 18) (10 ^ 18)) [''A'', ''B'', ''C''] \<rparr>"


text \<open>
  A chain that holds the obligation account, the user's token account for reserve B and
  the account of the native-mint reserve, whose cumulative borrow rate is 1.05.
\<close>

definition demoSdkEnv :: SdkEnv where
  "demoSdkEnv =
     \<lparr> POSITION_LIMIT = 6,
       OBLIGATION_SIZE = 1300,
       getProgramId = (\<lambda>_. ''program''),
       createWithSeed = (\<lambda>base sd pid. base @ ''/'' @ sd @ ''/'' @ pid),
       getAssociatedTokenAddress = (\<lambda>m holder. holder @ ''/'' @ m),
       getAssociatedTokenAddressSync = (\<lambda>m holder pid. holder @ ''/'' @ m @ ''/'' @ pid),
       getAccountInfo =
         (\<lambda>a. if a = ''obligation''
               then Inr (Some \<lparr> accountOwner = ''program'', accountData = [7] \<rparr>)
               else if a = ''user/B-mint''
               then Inr (Some \<lparr> accountOwner = ''token'', accountData = [8] \<rparr>)
               else if a = ''SOL''
               then Inr (Some \<lparr> accountOwner = ''program'', accountData = [9] \<rparr>)
               else Inr None),
       parseObligation = (\<lambda>acc. if accountData acc = [7] then Some demoObligation else None),
       parseReserve = (\<lambda>acc. if accountData acc = [9] then Some (105 * 10 ^ 16) else None),
       getAddressLookupTable = (\<lambda>_. Inr None),
       getMinimumBalanceForRentExemption = (\<lambda>n. Inr (7 * n)),
       getMinimumBalanceForRentExemptAccount = Inr 2039280,
       pullPriceServices = (\<lambda>ks tip. Inr ([], [])) \<rparr>"

text \<open>
  A builder as \<^verbatim>\<open>initialize\<close> leaves it for the user of the example chain, at the
  position limit, with a host account and without a lookup table.
\<close>

definition demoAction :: "ReserveType \<Rightarrow> Obligation option \<Rightarrow> int \<Rightarrow> SolendActionCore" where
  "demoAction rsv obligation amt =
     \<lparr> programId = ''program'',
       reserve = rsv,
       pool = demoPool,
       publicKey = ''user'',
       obligationAddress = ''obligation'',
       obligationAccountInfo = obligation,
       userTokenAccountAddress = ''user/'' @ mintAddress rsv,
       userCollateralAccountAddress = ''user/'' @ cTokenMint rsv,
       seed = ''pool'',
       positions = 6,
       amount = amt,
       hostAta = Some ''host'',
       lendingIxs = [],
       preIxs = [],
       postIxs = [],
       depositReserves = (case obligation of None \<Rightarrow> []
                          | Some d \<Rightarrow> map depositReserve (deposits d)),
       borrowReserves = (case obligation of None \<Rightarrow> []
                         | Some d \<Rightarrow> map borrowReserve (borrows d)),
       lookupTableAccount = None,
       jitoTipAmount = 1000,
       userRepayTokenAccountAddress = None,
       userRepayCollateralAccountAddress = None,
       token2022Mint = None,
       wrappedAta = None,
       setupIxs = [],
       cleanupIxs = [],
       postTxnIxs = [],
       pullPriceTxns = [] \<rparr>"


section \<open>Properties of the liquidator\<close>

subsection \<open>Auxiliary facts\<close>

lemma liquidated_append: "liquidated (xs @ ys) = liquidated xs @ liquidated ys"
  by (induction xs rule: liquidated.induct) auto

lemma pass_liquidated:
  assumes "liquidationPass env w ob = (e, evs, w')"
    and "x \<in> set (liquidated evs)"
  shows "\<exists>r. calculateRefreshedObligation env (info x) = Inr r
             \<and> \<not> borrowedValue r \<le> unhealthyBorrowValue r"
  using assms
  by (auto simp: liquidationPass_def Let_def liquidated_append
      split: sum.splits if_splits option.splits prod.splits)

lemma pass_healthy:
  "calculateRefreshedObligation env (info ob) = Inr r
   \<Longrightarrow> borrowedValue r \<le> unhealthyBorrowValue r
   \<Longrightarrow> liquidationPass env w ob = (Break, [Evaluate ob], w)"
  by (simp add: liquidationPass_def)

lemma pass_starts_with_evaluation:
  "\<exists>e evs w'. liquidationPass env w ob = (e, Evaluate ob # evs, w')"
  by (auto simp: liquidationPass_def Let_def split: sum.splits option.splits prod.splits)

lemma loop_liquidated:
  assumes "x \<in> set (liquidated (trace (liquidationLoop n env w start)))"
  shows "\<exists>r. calculateRefreshedObligation env (info x) = Inr r
             \<and> \<not> borrowedValue r \<le> unhealthyBorrowValue r"
  using assms
proof (induction n arbitrary: w start)
  case 0
  then show ?case by (cases start) (simp_all add: trace_def)
next
  case (Suc n)
  show ?case
  proof (cases start)
    case None
    with Suc.prems show ?thesis by (simp add: trace_def)
  next
    case (Some obligation)
    obtain e evs w' where p: "liquidationPass env w obligation = (e, evs, w')"
      by (cases "liquidationPass env w obligation") auto
    show ?thesis
    proof (cases e)
      case Break
      with p Suc.prems Some have "x \<in> set (liquidated evs)" by (simp add: trace_def)
      with p show ?thesis by (rule pass_liquidated)
    next
      case (Throw err)
      with p Suc.prems Some have "x \<in> set (liquidated evs)" by (simp add: trace_def)
      with p show ?thesis by (rule pass_liquidated)
    next
      case (Next ob')
      obtain e2 evs2 w2 where l: "liquidationLoop n env w' ob' = (e2, evs2, w2)"
        by (cases "liquidationLoop n env w' ob'") auto
      from Suc.prems Some p Next l
      have "x \<in> set (liquidated evs) \<or> x \<in> set (liquidated evs2)"
        by (auto simp: trace_def liquidated_append)
      then show ?thesis
      proof
        assume "x \<in> set (liquidated evs)"
        with p show ?thesis by (rule pass_liquidated)
      next
        assume "x \<in> set (liquidated evs2)"
        with l have "x \<in> set (liquidated (trace (liquidationLoop n env w' ob')))"
          by (simp add: trace_def)
        then show ?thesis by (rule Suc.IH)
      qed
    qed
  qed
qed

lemma scan_liquidated:
  assumes "x \<in> set (liquidated (trace (scanObligations n env w obs)))"
  shows "\<exists>r. calculateRefreshedObligation env (info x) = Inr r
             \<and> \<not> borrowedValue r \<le> unhealthyBorrowValue r"
  using assms
proof (induction obs arbitrary: w)
  case Nil
  then show ?case by (simp add: trace_def)
next
  case (Cons ob rest)
  obtain e evs w' where l: "liquidationLoop n env w (Some ob) = (e, evs, w')"
    by (cases "liquidationLoop n env w (Some ob)") auto
  obtain e2 evs2 w2 where s: "scanObligations n env w' rest = (e2, evs2, w2)"
    by (cases "scanObligations n env w' rest") auto
  from Cons.prems l s have "x \<in> set (liquidated evs) \<or> x \<in> set (liquidated evs2)"
    by (cases e) (auto simp: trace_def liquidated_append)
  then show ?case
  proof
    assume "x \<in> set (liquidated evs)"
    with l have "x \<in> set (liquidated (trace (liquidationLoop n env w (Some ob))))"
      by (simp add: trace_def)
    then show ?thesis by (rule loop_liquidated)
  next
    assume "x \<in> set (liquidated evs2)"
    with s have "x \<in> set (liquidated (trace (scanObligations n env w' rest)))"
      by (simp add: trace_def)
    then show ?thesis by (rule Cons.IH)
  qed
qed

lemma scan_done:
  assumes "\<forall>w'. \<forall>ob \<in> set obs. fst (liquidationLoop n env w' (Some ob)) \<noteq> OutOfFuel"
  shows "fst (scanObligations n env w obs) = ScanDone"
  using assms
proof (induction obs arbitrary: w)
  case Nil
  then show ?case by simp
next
  case (Cons ob rest)
  then have ne: "fst (liquidationLoop n env w (Some ob)) \<noteq> OutOfFuel" by simp
  from Cons have ih: "\<And>w'. fst (scanObligations n env w' rest) = ScanDone" by simp
  obtain e evs w' where l: "liquidationLoop n env w (Some ob) = (e, evs, w')"
    by (cases "liquidationLoop n env w (Some ob)") auto
  obtain e2 evs2 w2 where s: "scanObligations n env w' rest = (e2, evs2, w2)"
    by (cases "scanObligations n env w' rest") auto
  from ih [of w'] s have "e2 = ScanDone" by simp
  with ne l s show ?case by (cases e) auto
qed

lemma loop_evaluates:
  assumes "fst (liquidationLoop n env w (Some ob)) \<noteq> OutOfFuel"
  shows "Evaluate ob \<in> set (trace (liquidationLoop n env w (Some ob)))"
proof (cases n)
  case 0
  with assms show ?thesis by simp
next
  case (Suc m)
  obtain e evs w' where p: "liquidationPass env w ob = (e, Evaluate ob # evs, w')"
    using pass_starts_with_evaluation [of env w ob] by blast
  show ?thesis
    using Suc p by (cases e) (auto simp: trace_def split: prod.splits)
qed

lemma scan_evaluates:
  assumes "fst (scanObligations n env w obs) = ScanDone"
    and "ob \<in> set obs"
  shows "Evaluate ob \<in> set (trace (scanObligations n env w obs))"
  using assms
proof (induction obs arbitrary: w)
  case Nil
  then show ?case by simp
next
  case (Cons o1 rest)
  obtain e evs w' where l: "liquidationLoop n env w (Some o1) = (e, evs, w')"
    by (cases "liquidationLoop n env w (Some o1)") auto
  obtain e2 evs2 w2 where s: "scanObligations n env w' rest = (e2, evs2, w2)"
    by (cases "scanObligations n env w' rest") auto
  from Cons.prems(1) l s have ne: "e \<noteq> OutOfFuel" and d: "e2 = ScanDone"
    by (cases e; auto)+
  have tr: "set evs \<union> set evs2 \<subseteq> set (trace (scanObligations n env w (o1 # rest)))"
    using l s ne by (cases e) (auto simp: trace_def)
  show ?case
  proof (cases "ob = o1")
    case True
    from ne l have "Evaluate o1 \<in> set (trace (liquidationLoop n env w (Some o1)))"
      by (intro loop_evaluates) simp
    with l True tr show ?thesis by (auto simp: trace_def)
  next
    case False
    with Cons.prems have "ob \<in> set rest" by simp
    moreover from s d have "fst (scanObligations n env w' rest) = ScanDone" by simp
    ultimately have "Evaluate ob \<in> set (trace (scanObligations n env w' rest))"
      by (intro Cons.IH)
    with s tr show ?thesis by (auto simp: trace_def)
  qed
qed

lemma scan_after_error:
  assumes "liquidationLoop n env w (Some ob) = (Raised e ob', evs, w')"
  shows "scanObligations n env w (ob # rest)
         = (fst (scanObligations n env w' rest),
            evs @ LogError (pubkey ob') e # trace (scanObligations n env w' rest),
            snd (snd (scanObligations n env w' rest)))"
  using assms by (simp add: trace_def split: prod.splits)

subsection \<open>The example scan\<close>

lemma demoLiquidatorEnv_sel:
  "calculateRefreshedObligation demoLiquidatorEnv debt =
     (if debt = 0 then Inl (External ''account not found'') else Inr (demoRefreshed debt))"
  "sortBorrows demoLiquidatorEnv bs = rev (sort_key borrowMarketValue bs)"
  "getWalletTokenData demoLiquidatorEnv w m sy = Inr 5"
  "liquidateAndRedeem demoLiquidatorEnv w amt rs ws ob = Inr (Suc w)"
  "refetchObligation demoLiquidatorEnv w ob = Inr (Some (ob\<lparr> info := info ob - 60 \<rparr>))"
  by (simp_all add: demoLiquidatorEnv_def)

lemma demo_select:
  "selectBorrow demoLiquidatorEnv (refreshedBorrows (demoRefreshed d))
     = Some \<lparr> borrowMarketValue = 80, borrowMintAddress = ''usdc-mint'',
              borrowSymbol = ''USDC'' \<rparr>"
  "selectDeposit (refreshedDeposits (demoRefreshed d))
     = Some \<lparr> depositMarketValue = 50, depositSymbol = ''ETH'' \<rparr>"
  by (simp_all add: selectBorrow_def selectDeposit_def demoRefreshed_def
      demoLiquidatorEnv_sel)

lemma demo_values:
  "borrowedValue (demoRefreshed d) = of_nat d"
  "unhealthyBorrowValue (demoRefreshed d) = 100"
  by (simp_all add: demoRefreshed_def)

lemma demo_parsed:
  "pubkey (demoParsed k d) = k"
  "info (demoParsed k d) = d"
  by (simp_all add: demoParsed_def)

lemma demo_pass_unhealthy:
  "liquidationPass demoLiquidatorEnv w (demoParsed k 150)
     = (Next (Some (demoParsed k 90)),
        [Evaluate (demoParsed k 150), LogUnderwater k 150 100,
         LiquidateAndRedeem 5 ''USDC'' ''ETH'' (demoParsed k 150)], Suc w)"
  by (simp add: liquidationPass_def demoLiquidatorEnv_sel demo_select demo_values
      demoParsed_def)

lemma demo_pass_healthy:
  "liquidationPass demoLiquidatorEnv w (demoParsed k 90)
     = (Break, [Evaluate (demoParsed k 90)], w)"
  by (simp add: liquidationPass_def demoLiquidatorEnv_sel demo_values demoParsed_def)

lemma demo_pass_error:
  "liquidationPass demoLiquidatorEnv w (demoParsed k 0)
     = (Throw (External ''account not found''), [Evaluate (demoParsed k 0)], w)"
  by (simp add: liquidationPass_def demoLiquidatorEnv_sel demoParsed_def)

lemma demo_loops:
  "liquidationLoop 2 demoLiquidatorEnv w (Some (demoParsed k 150))
     = (Finished,
        [Evaluate (demoParsed k 150), LogUnderwater k 150 100,
         LiquidateAndRedeem 5 ''USDC'' ''ETH'' (demoParsed k 150),
         Evaluate (demoParsed k 90)], Suc w)"
  "liquidationLoop 2 demoLiquidatorEnv w (Some (demoParsed k 90))
     = (Finished, [Evaluate (demoParsed k 90)], w)"
  "liquidationLoop 2 demoLiquidatorEnv w (Some (demoParsed k 0))
     = (Raised (External ''account not found'') (demoParsed k 0),
        [Evaluate (demoParsed k 0)], w)"
  by (simp_all add: numeral_2_eq_2 demo_pass_unhealthy demo_pass_healthy demo_pass_error)

lemma demo_scan:
  "scanObligations 2 demoLiquidatorEnv 0
     [demoParsed ''a'' 0, demoParsed ''b'' 150, demoParsed ''c'' 90]
   = (ScanDone,
      [Evaluate (demoParsed ''a'' 0), LogError ''a'' (External ''account not found''),
       Evaluate (demoParsed ''b'' 150), LogUnderwater ''b'' 150 100,
       LiquidateAndRedeem 5 ''USDC'' ''ETH'' (demoParsed ''b'' 150),
       Evaluate (demoParsed ''b'' 90),
       Evaluate (demoParsed ''c'' 90)], 1)"
  by (simp add: demo_loops demo_parsed del: liquidationLoop.simps)


subsection \<open>Claims about the liquidator\<close>

text \<open>
  C2. The claim: the repay amount passed to the liquidation call is the maximum
  sentinel, not an amount derived from the liquidator's wallet balance. The comment
  above the call says so as well, but the third argument of the call is
  \<^verbatim>\<open>balanceBase\<close>. On the example scan, whose wallet holds 5 of the repay token, the
  pass over an unhealthy obligation calls \<^verbatim>\<open>liquidateAndRedeem\<close> with the amount 5,
  which is not \<^verbatim>\<open>U64_MAX\<close>.
\<close>

theorem liquidation_amount_is_wallet_balance:
  "liquidationPass demoLiquidatorEnv 0 (demoParsed ''obligation-1'' 150)
     = (Next (Some (demoParsed ''obligation-1'' 90)),
        [Evaluate (demoParsed ''obligation-1'' 150),
         LogUnderwater ''obligation-1'' 150 100,
         LiquidateAndRedeem 5 ''USDC'' ''ETH'' (demoParsed ''obligation-1'' 150)],
        1)
   \<and> (5 :: rat) \<noteq> of_int U64_MAX"
  by (simp add: demo_pass_unhealthy U64_MAX_def)

text \<open>
  C5, as the claim states it, fails: for a reserve whose oracle account belongs to no
  known Switchboard program, \<^verbatim>\<open>getTokenOracleData\<close> does not fail; it logs two lines
  and answers with the price 0.
\<close>

theorem unresolved_oracle_counterexample:
  "getTokenOracleData demoOracleEnv (demoConfigReserve ''feed-unknown'')
     = Inr (\<lparr> symbol = ''USDC'', reserveAddress = ''usdc-reserve'',
              tokenMintAddress = ''usdc-mint'', decimals = 1000000, price = 0 \<rparr>,
            [UnrecognizedSwitchboardOwner (Some ''somebody-else''),
             FailedToGetPrice ''USDC'' ''usdc-reserve''])"
  by (simp add: getTokenOracleData_def readPriceData_def demoOracleEnv_def
      demoConfigReserve_def falsy_def SWITCHBOARD_V1_ADDRESS_def SWITCHBOARD_V2_ADDRESS_def)

text \<open>
  C5, amended. For every reserve whose oracle cannot be resolved to a price (the oracle
  account is missing, its owner is none of the two Switchboard programs, or the decoded
  value is missing or zero), \<^verbatim>\<open>getTokenOracleData\<close> logs the failure and returns the
  reserve's oracle data with the price 0: the evaluation goes on with a zero price and
  does not fail.
\<close>

theorem unresolved_price_is_zero:
  assumes "fetchAccountInfo env (switchboardFeedAddress rsv) = Inr accountInfo"
    and "unresolved env accountInfo"
  shows "\<exists>logs. getTokenOracleData env rsv
           = Inr (\<lparr> symbol = tokenSymbol (liquidityToken rsv),
                    reserveAddress = configAddress rsv,
                    tokenMintAddress = tokenMint (liquidityToken rsv),
                    decimals = 10 ^ tokenDecimals (liquidityToken rsv),
                    price = 0 \<rparr>,
                  logs @ [FailedToGetPrice (tokenSymbol (liquidityToken rsv))
                            (configAddress rsv)])"
  using assms
  by (auto simp: getTokenOracleData_def readPriceData_def unresolved_def falsy_def
      split: option.splits sum.splits if_splits)

theorem unresolved_price_is_zero_witness:
  "fetchAccountInfo demoOracleEnv (switchboardFeedAddress (demoConfigReserve ''feed-missing''))
     = Inr None
   \<and> unresolved demoOracleEnv None
   \<and> (\<exists>logs. getTokenOracleData demoOracleEnv (demoConfigReserve ''feed-missing'')
           = Inr (\<lparr> symbol = ''USDC'', reserveAddress = ''usdc-reserve'',
                    tokenMintAddress = ''usdc-mint'', decimals = 1000000, price = 0 \<rparr>,
                  logs @ [FailedToGetPrice ''USDC'' ''usdc-reserve'']))"
proof -
  have f: "fetchAccountInfo demoOracleEnv
             (switchboardFeedAddress (demoConfigReserve ''feed-missing'')) = Inr None"
    by (simp add: demoOracleEnv_def demoConfigReserve_def)
  have u: "unresolved demoOracleEnv None"
    by (simp add: unresolved_def)
  from unresolved_price_is_zero [OF f u] f u show ?thesis
    by (simp add: demoConfigReserve_def)
qed

text \<open>
  C7. On every pass of the loop over one obligation, if the recomputed
  \<^verbatim>\<open>borrowedValue\<close> is at most \<^verbatim>\<open>unhealthyBorrowValue\<close>, the loop ends there: the
  only thing done is the evaluation, and the chain is as it was. And in a scan of any
  obligations, for any number of passes, every obligation passed to
  \<^verbatim>\<open>liquidateAndRedeem\<close> is one whose evaluation gave
  \<^verbatim>\<open>borrowedValue > unhealthyBorrowValue\<close>.
\<close>

theorem healthy_obligation_never_liquidated:
  "(\<forall>r. calculateRefreshedObligation env (info ob) = Inr r \<longrightarrow>
        borrowedValue r \<le> unhealthyBorrowValue r \<longrightarrow>
        liquidationLoop (Suc m) env w (Some ob) = (Finished, [Evaluate ob], w))
   \<and> (\<forall>x \<in> set (liquidated (trace (scanObligations n env w obs))).
        \<exists>r. calculateRefreshedObligation env (info x) = Inr r
            \<and> \<not> borrowedValue r \<le> unhealthyBorrowValue r)"
proof (intro conjI allI impI ballI)
  fix r
  assume "calculateRefreshedObligation env (info ob) = Inr r"
    and "borrowedValue r \<le> unhealthyBorrowValue r"
  then show "liquidationLoop (Suc m) env w (Some ob) = (Finished, [Evaluate ob], w)"
    by (simp add: pass_healthy)
next
  fix x
  assume "x \<in> set (liquidated (trace (scanObligations n env w obs)))"
  then show "\<exists>r. calculateRefreshedObligation env (info x) = Inr r
            \<and> \<not> borrowedValue r \<le> unhealthyBorrowValue r"
    by (rule scan_liquidated)
qed

theorem healthy_obligation_never_liquidated_witness:
  "calculateRefreshedObligation demoLiquidatorEnv (info (demoParsed ''c'' 90))
     = Inr (demoRefreshed 90)
   \<and> borrowedValue (demoRefreshed 90) \<le> unhealthyBorrowValue (demoRefreshed 90)
   \<and> liquidationLoop (Suc 1) demoLiquidatorEnv 0 (Some (demoParsed ''c'' 90))
       = (Finished, [Evaluate (demoParsed ''c'' 90)], 0)
   \<and> liquidated (trace (scanObligations 2 demoLiquidatorEnv 0
         [demoParsed ''a'' 0, demoParsed ''b'' 150, demoParsed ''c'' 90]))
       = [demoParsed ''b'' 150]
   \<and> calculateRefreshedObligation demoLiquidatorEnv (info (demoParsed ''b'' 150))
       = Inr (demoRefreshed 150)
   \<and> \<not> borrowedValue (demoRefreshed 150) \<le> unhealthyBorrowValue (demoRefreshed 150)"
proof -
  have c: "calculateRefreshedObligation demoLiquidatorEnv (info (demoParsed ''c'' 90))
             = Inr (demoRefreshed 90)"
    by (simp add: demoLiquidatorEnv_sel demo_parsed)
  have h: "borrowedValue (demoRefreshed 90) \<le> unhealthyBorrowValue (demoRefreshed 90)"
    by (simp add: demo_values)
  have l: "liquidated (trace (scanObligations 2 demoLiquidatorEnv 0
             [demoParsed ''a'' 0, demoParsed ''b'' 150, demoParsed ''c'' 90]))
           = [demoParsed ''b'' 150]"
    unfolding demo_scan by (simp add: trace_def)
  from healthy_obligation_never_liquidated
         [where env = demoLiquidatorEnv and ob = "demoParsed ''c'' 90" and m = 1
            and w = 0 and n = 2
            and obs = "[demoParsed ''a'' 0, demoParsed ''b'' 150, demoParsed ''c'' 90]"]
  have "liquidationLoop (Suc 1) demoLiquidatorEnv 0 (Some (demoParsed ''c'' 90))
          = (Finished, [Evaluate (demoParsed ''c'' 90)], 0)"
    and "\<exists>r. calculateRefreshedObligation demoLiquidatorEnv (info (demoParsed ''b'' 150))
                = Inr r \<and> \<not> borrowedValue r \<le> unhealthyBorrowValue r"
    using c h l by auto
  with c h l show ?thesis
    by (auto simp: demoLiquidatorEnv_sel demo_parsed)
qed

text \<open>
  C8. In the scan over a market's obligations, an error raised while one obligation is
  evaluated or liquidated is caught in that obligation's iteration: the scan logs it and
  goes on with the rest of the list from the state the failed iteration left. The scan
  has no way to end with an error: if no obligation's loop runs on for ever (here: for
  more than \<open>n\<close> passes), the scan reaches the end of the list, and a scan that reaches
  the end has evaluated every obligation of the list.
\<close>

theorem scan_isolates_obligation_errors:
  "(\<forall>e ob' evs w'. liquidationLoop n env w (Some ob) = (Raised e ob', evs, w') \<longrightarrow>
        scanObligations n env w (ob # rest)
        = (fst (scanObligations n env w' rest),
           evs @ LogError (pubkey ob') e # trace (scanObligations n env w' rest),
           snd (snd (scanObligations n env w' rest))))
   \<and> ((\<forall>w'. \<forall>x \<in> set obs. fst (liquidationLoop n env w' (Some x)) \<noteq> OutOfFuel) \<longrightarrow>
        fst (scanObligations n env w obs) = ScanDone)
   \<and> (fst (scanObligations n env w obs) = ScanDone \<longrightarrow>
        (\<forall>x \<in> set obs. Evaluate x \<in> set (trace (scanObligations n env w obs))))"
proof (intro conjI allI impI ballI)
  fix e ob' evs w'
  assume "liquidationLoop n env w (Some ob) = (Raised e ob', evs, w')"
  then show "scanObligations n env w (ob # rest)
        = (fst (scanObligations n env w' rest),
           evs @ LogError (pubkey ob') e # trace (scanObligations n env w' rest),
           snd (snd (scanObligations n env w' rest)))"
    by (rule scan_after_error)
next
  assume "\<forall>w'. \<forall>x \<in> set obs. fst (liquidationLoop n env w' (Some x)) \<noteq> OutOfFuel"
  then show "fst (scanObligations n env w obs) = ScanDone"
    by (rule scan_done)
next
  fix x
  assume "fst (scanObligations n env w obs) = ScanDone" and "x \<in> set obs"
  then show "Evaluate x \<in> set (trace (scanObligations n env w obs))"
    by (rule scan_evaluates)
qed

theorem scan_isolates_obligation_errors_witness:
  "liquidationLoop 2 demoLiquidatorEnv 0 (Some (demoParsed ''a'' 0))
     = (Raised (External ''account not found'') (demoParsed ''a'' 0),
        [Evaluate (demoParsed ''a'' 0)], 0)
   \<and> (\<forall>w'. fst (liquidationLoop 2 demoLiquidatorEnv w' (Some (demoParsed ''a'' 0)))
              \<noteq> OutOfFuel
            \<and> fst (liquidationLoop 2 demoLiquidatorEnv w' (Some (demoParsed ''b'' 150)))
              \<noteq> OutOfFuel
            \<and> fst (liquidationLoop 2 demoLiquidatorEnv w' (Some (demoParsed ''c'' 90)))
              \<noteq> OutOfFuel)
   \<and> scanObligations 2 demoLiquidatorEnv 0
        [demoParsed ''a'' 0, demoParsed ''b'' 150, demoParsed ''c'' 90]
      = (ScanDone,
         [Evaluate (demoParsed ''a'' 0)]
         @ LogError ''a'' (External ''account not found'')
         # trace (scanObligations 2 demoLiquidatorEnv 0
                    [demoParsed ''b'' 150, demoParsed ''c'' 90]),
         1)
   \<and> Evaluate (demoParsed ''b'' 150)
        \<in> set (trace (scanObligations 2 demoLiquidatorEnv 0
                        [demoParsed ''a'' 0, demoParsed ''b'' 150, demoParsed ''c'' 90]))
   \<and> Evaluate (demoParsed ''c'' 90)
        \<in> set (trace (scanObligations 2 demoLiquidatorEnv 0
                        [demoParsed ''a'' 0, demoParsed ''b'' 150, demoParsed ''c'' 90]))"
proof -
  let ?obs = "[demoParsed ''a'' 0, demoParsed ''b'' 150, demoParsed ''c'' 90]"
  have r: "liquidationLoop 2 demoLiquidatorEnv 0 (Some (demoParsed ''a'' 0))
             = (Raised (External ''account not found'') (demoParsed ''a'' 0),
                [Evaluate (demoParsed ''a'' 0)], 0)"
    by (rule demo_loops)
  have f: "\<forall>w'. \<forall>x \<in> set ?obs.
             fst (liquidationLoop 2 demoLiquidatorEnv w' (Some x)) \<noteq> OutOfFuel"
    by (simp add: demo_loops del: liquidationLoop.simps)
  have rest: "snd (snd (scanObligations 2 demoLiquidatorEnv 0
                          [demoParsed ''b'' 150, demoParsed ''c'' 90])) = 1"
    unfolding scanObligations.simps demo_loops by simp
  note t = scan_isolates_obligation_errors
             [where n = 2 and env = demoLiquidatorEnv and w = 0
                and ob = "demoParsed ''a'' 0"
                and rest = "[demoParsed ''b'' 150, demoParsed ''c'' 90]" and obs = ?obs]
  from t f have d: "fst (scanObligations 2 demoLiquidatorEnv 0 ?obs) = ScanDone"
    by blast
  from t d have ev: "\<forall>x \<in> set ?obs.
      Evaluate x \<in> set (trace (scanObligations 2 demoLiquidatorEnv 0 ?obs))"
    by blast
  from t r have "scanObligations 2 demoLiquidatorEnv 0 ?obs
      = (fst (scanObligations 2 demoLiquidatorEnv 0 [demoParsed ''b'' 150, demoParsed ''c'' 90]),
         [Evaluate (demoParsed ''a'' 0)]
         @ LogError (pubkey (demoParsed ''a'' 0)) (External ''account not found'')
         # trace (scanObligations 2 demoLiquidatorEnv 0
                    [demoParsed ''b'' 150, demoParsed ''c'' 90]),
         snd (snd (scanObligations 2 demoLiquidatorEnv 0
                     [demoParsed ''b'' 150, demoParsed ''c'' 90])))"
    by blast
  with d rest have s: "scanObligations 2 demoLiquidatorEnv 0 ?obs
      = (ScanDone,
         [Evaluate (demoParsed ''a'' 0)]
         @ LogError ''a'' (External ''account not found'')
         # trace (scanObligations 2 demoLiquidatorEnv 0
                    [demoParsed ''b'' 150, demoParsed ''c'' 90]),
         1)"
    by (simp add: demo_parsed del: scanObligations.simps)
  from ev have "Evaluate (demoParsed ''b'' 150)
        \<in> set (trace (scanObligations 2 demoLiquidatorEnv 0 ?obs))"
    and "Evaluate (demoParsed ''c'' 90)
        \<in> set (trace (scanObligations 2 demoLiquidatorEnv 0 ?obs))"
    by simp_all
  moreover from f have "\<forall>w'. fst (liquidationLoop 2 demoLiquidatorEnv w' (Some (demoParsed ''a'' 0)))
              \<noteq> OutOfFuel
            \<and> fst (liquidationLoop 2 demoLiquidatorEnv w' (Some (demoParsed ''b'' 150)))
              \<noteq> OutOfFuel
            \<and> fst (liquidationLoop 2 demoLiquidatorEnv w' (Some (demoParsed ''c'' 90)))
              \<noteq> OutOfFuel"
    by simp
  ultimately show ?thesis using r s by blast
qed



section \<open>Properties of the action builder\<close>

subsection \<open>Auxiliary facts\<close>

lemma arrayFromSet_fold:
  "distinct acc \<Longrightarrow>
   distinct (foldl (\<lambda>acc x. if x \<in> set acc then acc else acc @ [x]) acc xs)
   \<and> set (foldl (\<lambda>acc x. if x \<in> set acc then acc else acc @ [x]) acc xs)
       = set acc \<union> set xs"
  by (induction xs arbitrary: acc) auto

lemma distinct_arrayFromSet: "distinct (arrayFromSet xs)"
  using arrayFromSet_fold [of "[]" xs] by (simp add: arrayFromSet_def)

lemma set_arrayFromSet: "set (arrayFromSet xs) = set xs"
  using arrayFromSet_fold [of "[]" xs] by (simp add: arrayFromSet_def)

lemma length_arrayFromSet: "length (arrayFromSet xs) = card (set xs)"
  using distinct_card [OF distinct_arrayFromSet, of xs] by (simp add: set_arrayFromSet)

lemma distinctReserveCount_card:
  "distinctReserveCount action rsv depositRs borrowRs =
     card (set borrowRs \<union> (if action = Borrow then {address rsv} else {}))
     + card (set depositRs \<union> (if action = Deposit then {address rsv} else {}))"
  by (simp add: distinctReserveCount_def length_arrayFromSet)

lemma pushLending_appends:
  "P ix \<Longrightarrow> \<exists>ix'. appendsOneLending this (pushLending ix this) ix' \<and> P ix'"
  by (auto simp: appendsOneLending_def pushLending_def)

lemma addDepositIx_variant:
  "\<exists>ix. appendsOneLending this (addDepositIx this) ix \<and> selectedBySentinel this ix"
  unfolding addDepositIx_def Let_def
  by (rule pushLending_appends) (simp add: selectedBySentinel_def)

lemma addWithdrawIx_variant:
  "\<exists>ix. appendsOneLending this (addWithdrawIx this) ix \<and> selectedBySentinel this ix"
  unfolding addWithdrawIx_def
  by (rule pushLending_appends) (simp add: selectedBySentinel_def)

lemma addRepayIx_variant:
  "\<exists>ix. appendsOneLending this (addRepayIx this) ix \<and> selectedBySentinel this ix"
  unfolding addRepayIx_def Let_def
  by (rule pushLending_appends) (simp add: selectedBySentinel_def)

lemma initialize_fresh:
  assumes "initialize env pl rsv action amt wallet environment customObligationAddress host
             customObligationSeed lookupTableAddress tipAmount repayReserve wrappedMint
           = Inr axn"
  shows "lendingIxs axn = [] \<and> amount axn = amt"
  using assms
  by (auto simp: initialize_def Let_def split: sum.splits if_splits)

lemma resolveSupport_keeps_lending:
  assumes "resolveSupport env action support this = Inr this'"
  shows "lendingIxs this' = lendingIxs this \<and> amount this' = amount this"
proof (cases support)
  case Wrap
  with assms show ?thesis
    by (auto simp: addWrapIx_def split: if_splits option.splits prod.splits)
next
  case Unwrap
  with assms show ?thesis
    by (auto simp: addUnwrapIx_def split: if_splits option.splits prod.splits)
next
  case RefreshReserves
  with assms show ?thesis
    by (auto simp: addRefreshReservesIxs_def buildPullPriceTxns_def Let_def
        split: sum.splits prod.splits)
next
  case RefreshObligation
  with assms show ?thesis by (auto simp: addRefreshObligationIxs_def)
next
  case CreateObligation
  with assms show ?thesis
    by (auto simp: addObligationIxs_def split: option.splits sum.splits)
next
  case CAta
  with assms show ?thesis
    by (auto simp: addCAtaIxs_def Let_def split: option.splits sum.splits if_splits)
next
  case Ata
  with assms show ?thesis
    by (auto simp: addAtaIxs_def Let_def split: option.splits sum.splits if_splits)
next
  case WrapUnwrapLiquidate
  with assms show ?thesis
    by (auto simp: addWrapUnwrapLiquidateIxs_def split: if_splits)
next
  case Wsol
  with assms show ?thesis
    by (auto simp: updateWSOLAccount_def Let_def split: option.splits sum.splits if_splits
        prod.splits)
qed

lemma resolveSupports_keeps_lending:
  "resolveSupports env action supports this = Inr this'
   \<Longrightarrow> lendingIxs this' = lendingIxs this \<and> amount this' = amount this"
proof (induction supports arbitrary: this)
  case Nil
  then show ?case by simp
next
  case (Cons s ss)
  then obtain mid where m: "resolveSupport env action s this = Inr mid"
    and r: "resolveSupports env action ss mid = Inr this'"
    by (auto split: sum.splits)
  from resolveSupport_keeps_lending [OF m] Cons.IH [OF r] show ?case by simp
qed

lemma build_lending:
  assumes "andThen (initialize env pl rsv initAction amt wallet environment
                      customObligationAddress host customObligationSeed lookupTableAddress
                      tipAmount repayReserve wrappedMint)
             (\<lambda>axn. andThen (addSupportIxs env action axn) (\<lambda>axn. Inr (add axn))) = Inr built"
    and "\<And>this. \<exists>ix. appendsOneLending this (add this) ix \<and> selectedBySentinel this ix"
  shows "oneLendingBySentinel amt built"
proof -
  from assms(1) obtain a0 a1 where
    i: "initialize env pl rsv initAction amt wallet environment customObligationAddress host
          customObligationSeed lookupTableAddress tipAmount repayReserve wrappedMint = Inr a0"
    and s: "addSupportIxs env action a0 = Inr a1"
    and b: "built = add a1"
    by (auto simp: andThen_def split: sum.splits)
  from initialize_fresh [OF i] have f: "lendingIxs a0 = []" "amount a0 = amt" by simp_all
  from s resolveSupports_keeps_lending [of env action _ a0 a1] f
  have k: "lendingIxs a1 = []" "amount a1 = amt"
    by (simp_all add: addSupportIxs_def)
  from assms(2) [of a1] obtain ix where
    "appendsOneLending a1 (add a1) ix" "selectedBySentinel a1 ix" by blast
  with k b show ?thesis
    by (auto simp: appendsOneLending_def selectedBySentinel_def oneLendingBySentinel_def)
qed


subsection \<open>The example chain\<close>

lemma demoSdkEnv_sel:
  "POSITION_LIMIT demoSdkEnv = 6"
  "getProgramId demoSdkEnv e = ''program''"
  "getAssociatedTokenAddress demoSdkEnv m holder = holder @ ''/'' @ m"
  "getAccountInfo demoSdkEnv ''obligation''
     = Inr (Some \<lparr> accountOwner = ''program'', accountData = [7] \<rparr>)"
  "getAccountInfo demoSdkEnv ''user/B-mint''
     = Inr (Some \<lparr> accountOwner = ''token'', accountData = [8] \<rparr>)"
  "getAccountInfo demoSdkEnv ''user/B-cmint'' = Inr None"
  "getAccountInfo demoSdkEnv ''SOL''
     = Inr (Some \<lparr> accountOwner = ''program'', accountData = [9] \<rparr>)"
  "parseObligation demoSdkEnv \<lparr> accountOwner = ''program'', accountData = [7] \<rparr>
     = Some demoObligation"
  "parseReserve demoSdkEnv \<lparr> accountOwner = ''program'', accountData = [9] \<rparr>
     = Some (105 * 10 ^ 16)"
  "getAddressLookupTable demoSdkEnv a = Inr None"
  "getMinimumBalanceForRentExemptAccount demoSdkEnv = Inr 2039280"
  by (simp_all add: demoSdkEnv_def)

lemma demo_load: "loadObligation demoSdkEnv ''obligation'' = Inr (Some demoObligation)"
  by (simp add: loadObligation_def demoSdkEnv_sel)

lemma demo_reserves:
  "map depositReserve (deposits demoObligation) = [''A'', ''B'', ''C'']"
  "map borrowReserve (borrows demoObligation) = [''A'', ''B'', ''C'']"
  by (simp_all add: demoObligation_def demoBorrow_def)

lemma demo_reservesOf:
  "reservesOf (Some demoObligation) = ({''A'', ''B'', ''C''}, {''A'', ''B'', ''C''})"
  unfolding reservesOf_def option.case set_map [symmetric] demo_reserves by simp

lemma demoReserve_sel:
  "address (demoReserve a) = a"
  "mintAddress (demoReserve a) = a @ ''-mint''"
  "cTokenMint (demoReserve a) = a @ ''-cmint''"
  by (simp_all add: demoReserve_def)

lemma demoAction_sel:
  "reserve (demoAction rsv ob amt) = rsv"
  "publicKey (demoAction rsv ob amt) = ''user''"
  "amount (demoAction rsv ob amt) = amt"
  "positions (demoAction rsv ob amt) = 6"
  "hostAta (demoAction rsv ob amt) = Some ''host''"
  "lookupTableAccount (demoAction rsv ob amt) = None"
  "obligationAccountInfo (demoAction rsv ob amt) = ob"
  "userTokenAccountAddress (demoAction rsv ob amt) = ''user/'' @ mintAddress rsv"
  "userCollateralAccountAddress (demoAction rsv ob amt) = ''user/'' @ cTokenMint rsv"
  "wrappedAta (demoAction rsv ob amt) = None"
  "preIxs (demoAction rsv ob amt) = []"
  "setupIxs (demoAction rsv ob amt) = []"
  "lendingIxs (demoAction rsv ob amt) = []"
  by (simp_all add: demoAction_def)

lemma demo_emptyBuckets: "emptyBuckets (demoAction rsv ob amt)"
  by (simp add: emptyBuckets_def demoAction_def)

lemma demo_count:
  "distinctReserveCount Repay (demoReserve ''B'') [''A'', ''B'', ''C''] [''A'', ''B'', ''C''] = 6"
  "distinctReserveCount Borrow (demoReserve ''D'') [''A'', ''B'', ''C''] [''A'', ''B'', ''C''] = 7"
  by (simp_all add: distinctReserveCount_def arrayFromSet_def demoReserve_sel)



lemma demo_initialize_repay:
  "initialize demoSdkEnv demoPool (demoReserve ''B'') Repay amt ''user'' ''production''
     (Some ''obligation'') None None None None None None
   = Inr ((demoAction (demoReserve ''B'') (Some demoObligation) amt)\<lparr> hostAta := None \<rparr>)"
  by (simp add: initialize_def Let_def deriveObligationAddress_def deriveSeed_def demo_load
      demo_reserves demo_count demoSdkEnv_sel fetchLookupTable_def truthy_def
      demoAction_def demoPool_def demoReserve_sel)

lemma demo_supports_repay:
  "addSupportIxs demoSdkEnv Repay
     ((demoAction (demoReserve ''B'') (Some demoObligation) amt)\<lparr> hostAta := None \<rparr>)
   = Inr ((demoAction (demoReserve ''B'') (Some demoObligation) amt)\<lparr> hostAta := None \<rparr>)"
  by (simp add: addSupportIxs_def updateWSOLAccount_def demoAction_def demoReserve_sel
      NATIVE_MINT_def)

lemma demo_build_repay:
  "buildRepayTxns demoSdkEnv demoPool (demoReserve ''B'') amt ''user'' ''production''
     (Some ''obligation'') None None
   = Inr (addRepayIx ((demoAction (demoReserve ''B'') (Some demoObligation) amt)
                        \<lparr> hostAta := None \<rparr>))"
  by (simp add: buildRepayTxns_def andThen_def demo_initialize_repay demo_supports_repay)

subsection \<open>Claims about the action builder\<close>

text \<open>
  C1, as the claim states it, fails: the count that \<^verbatim>\<open>initialize\<close> compares with
  the limit is not the number of distinct reserves of deposits, borrows and the touched
  reserve taken together. An obligation that deposits and borrows the same three
  reserves has three distinct reserves; borrowing a fourth one makes four, which is
  within the limit 6, and yet \<^verbatim>\<open>initialize\<close> fails.
\<close>

theorem initialize_union_counterexample:
  "card (depositReserve ` set (deposits demoObligation)
         \<union> borrowReserve ` set (borrows demoObligation)
         \<union> {address (demoReserve ''D'')}) \<le> POSITION_LIMIT demoSdkEnv
   \<and> initialize demoSdkEnv demoPool (demoReserve ''D'') Borrow 100 ''user'' ''production''
        (Some ''obligation'') None None None None None None
      = Inl (PositionLimitExceeded 6)"
proof -
  have "card (depositReserve ` set (deposits demoObligation)
           \<union> borrowReserve ` set (borrows demoObligation)
           \<union> {address (demoReserve ''D'')}) \<le> 6"
    unfolding set_map [symmetric] demo_reserves by (simp add: demoReserve_sel)
  then show ?thesis
    by (simp add: initialize_def deriveObligationAddress_def demo_load demo_reserves
        demo_count demoSdkEnv_sel)
qed

text \<open>
  C1, amended. \<^verbatim>\<open>initialize\<close> counts positions: the distinct borrow reserves of the
  obligation, with the action's reserve when the action is a borrow, plus the distinct
  deposit reserves, with the action's reserve when the action is a deposit (a reserve
  that is both deposited and borrowed counts twice). When that count exceeds the
  Position Limit, \<^verbatim>\<open>initialize\<close> fails with the position-limit error and no builder
  exists, so no instruction is built and whatever the build would do next is not done;
  otherwise the check passes and, once the lookup
  table is read, the builder starts with that count as its positions and with every
  bucket empty. (The action \<^verbatim>\<open>depositCollateral\<close>, whose reserve the count leaves
  out, is not covered.)
\<close>

theorem initialize_position_limit:
  assumes "loadObligation env
             (deriveObligationAddress env pl wallet environment customObligationAddress
                customObligationSeed) = Inr details"
    and "reservesOf details = (D, B)"
    and "n = card (B \<union> (if action = Borrow then {address rsv} else {}))
             + card (D \<union> (if action = Deposit then {address rsv} else {}))"
    and "action \<noteq> DepositCollateral"
  shows "if POSITION_LIMIT env < n
         then initialize env pl rsv action amt wallet environment customObligationAddress
                host customObligationSeed lookupTableAddress tipAmount repayReserve
                wrappedMint
              = Inl (PositionLimitExceeded (POSITION_LIMIT env))
              \<and> (\<forall>rest :: SolendActionCore \<Rightarrow> error + SolendActionCore.
                     andThen (initialize env pl rsv action amt wallet environment
                                customObligationAddress host customObligationSeed
                                lookupTableAddress tipAmount repayReserve wrappedMint) rest
                     = Inl (PositionLimitExceeded (POSITION_LIMIT env)))
         else \<forall>table. fetchLookupTable env lookupTableAddress = Inr table \<longrightarrow>
                (\<exists>axn. initialize env pl rsv action amt wallet environment
                          customObligationAddress host customObligationSeed
                          lookupTableAddress tipAmount repayReserve wrappedMint = Inr axn
                       \<and> positions axn = n \<and> emptyBuckets axn)"
  using assms
  by (cases details)
     (auto simp: initialize_def Let_def distinctReserveCount_card reservesOf_def
        emptyBuckets_def andThen_def)

theorem initialize_position_limit_witness:
  "loadObligation demoSdkEnv
     (deriveObligationAddress demoSdkEnv demoPool ''user'' ''production''
        (Some ''obligation'') None) = Inr (Some demoObligation)
   \<and> reservesOf (Some demoObligation) = ({''A'', ''B'', ''C''}, {''A'', ''B'', ''C''})
   \<and> (6 :: nat) = card {''A'', ''B'', ''C''} + card {''A'', ''B'', ''C''}
   \<and> Repay \<noteq> DepositCollateral
   \<and> \<not> POSITION_LIMIT demoSdkEnv < 6
   \<and> fetchLookupTable demoSdkEnv None = Inr None
   \<and> (\<exists>axn. initialize demoSdkEnv demoPool (demoReserve ''B'') Repay 5 ''user''
               ''production'' (Some ''obligation'') (Some ''host'') None None None None
               None = Inr axn
            \<and> positions axn = 6 \<and> emptyBuckets axn)"
proof -
  have l: "loadObligation demoSdkEnv
             (deriveObligationAddress demoSdkEnv demoPool ''user'' ''production''
                (Some ''obligation'') None) = Inr (Some demoObligation)"
    by (simp add: deriveObligationAddress_def demo_load)
  have n: "(6 :: nat) = card ({''A'', ''B'', ''C''}
                 \<union> (if Repay = Borrow then {address (demoReserve ''B'')} else {}))
             + card ({''A'', ''B'', ''C''}
                 \<union> (if Repay = Deposit then {address (demoReserve ''B'')} else {}))"
    by simp
  have a: "Repay \<noteq> DepositCollateral" by simp
  have f: "fetchLookupTable demoSdkEnv None = Inr None"
    by (simp add: fetchLookupTable_def)
  from initialize_position_limit
         [where amt = 5 and host = "Some ''host''" and lookupTableAddress = None
            and tipAmount = None and repayReserve = None and wrappedMint = None,
          OF l demo_reservesOf n a] f
  have "\<exists>axn. initialize demoSdkEnv demoPool (demoReserve ''B'') Repay 5 ''user''
               ''production'' (Some ''obligation'') (Some ''host'') None None None None
               None = Inr axn
            \<and> positions axn = 6 \<and> emptyBuckets axn"
    by (simp add: demoSdkEnv_sel)
  with l demo_reservesOf a f show ?thesis
    by (simp add: demoSdkEnv_sel)
qed

text \<open>
  C3. Each of \<^verbatim>\<open>addDepositIx\<close>, \<^verbatim>\<open>addWithdrawIx\<close> and \<^verbatim>\<open>addRepayIx\<close> changes
  the builder by appending exactly one lending instruction and nothing else; that
  instruction is the whole-balance variant when the amount is \<^verbatim>\<open>U64_MAX\<close>, and for
  every other amount the variant that carries the amount. Hence every deposit, withdraw
  or repay build that returns a builder returns it with exactly one lending instruction,
  the variant that the amount of the build selects.
\<close>

theorem sentinel_selects_variant:
  "(\<exists>ix. appendsOneLending this (addDepositIx this) ix \<and> selectedBySentinel this ix)
   \<and> (\<exists>ix. appendsOneLending this (addWithdrawIx this) ix \<and> selectedBySentinel this ix)
   \<and> (\<exists>ix. appendsOneLending this (addRepayIx this) ix \<and> selectedBySentinel this ix)
   \<and> (\<forall>built. buildDepositTxns env pl rsv amt wallet environment obligationAddr
                  obligationSeed lookupTableAddress wrappedMint = Inr built \<longrightarrow>
          oneLendingBySentinel amt built)
   \<and> (\<forall>built. buildWithdrawTxns env pl rsv amt wallet environment obligationAddr
                  obligationSeed lookupTableAddress tipAmount wrappedMint = Inr built \<longrightarrow>
          oneLendingBySentinel amt built)
   \<and> (\<forall>built. buildRepayTxns env pl rsv amt wallet environment obligationAddr
                  lookupTableAddress wrappedMint = Inr built \<longrightarrow>
          oneLendingBySentinel amt built)"
proof (intro conjI allI impI)
  show "\<exists>ix. appendsOneLending this (addDepositIx this) ix \<and> selectedBySentinel this ix"
    by (rule addDepositIx_variant)
  show "\<exists>ix. appendsOneLending this (addWithdrawIx this) ix \<and> selectedBySentinel this ix"
    by (rule addWithdrawIx_variant)
  show "\<exists>ix. appendsOneLending this (addRepayIx this) ix \<and> selectedBySentinel this ix"
    by (rule addRepayIx_variant)
next
  fix built
  assume "buildDepositTxns env pl rsv amt wallet environment obligationAddr
            obligationSeed lookupTableAddress wrappedMint = Inr built"
  then show "oneLendingBySentinel amt built"
    unfolding buildDepositTxns_def by (rule build_lending) (rule addDepositIx_variant)
next
  fix built
  assume "buildWithdrawTxns env pl rsv amt wallet environment obligationAddr
            obligationSeed lookupTableAddress tipAmount wrappedMint = Inr built"
  then show "oneLendingBySentinel amt built"
    unfolding buildWithdrawTxns_def by (rule build_lending) (rule addWithdrawIx_variant)
next
  fix built
  assume "buildRepayTxns env pl rsv amt wallet environment obligationAddr
            lookupTableAddress wrappedMint = Inr built"
  then show "oneLendingBySentinel amt built"
    unfolding buildRepayTxns_def by (rule build_lending) (rule addRepayIx_variant)
qed

theorem sentinel_selects_variant_witness:
  "buildRepayTxns demoSdkEnv demoPool (demoReserve ''B'') U64_MAX ''user'' ''production''
     (Some ''obligation'') None None
   = Inr (addRepayIx ((demoAction (demoReserve ''B'') (Some demoObligation) U64_MAX)
                        \<lparr> hostAta := None \<rparr>))
   \<and> (\<exists>ix. lendingIxs (addRepayIx ((demoAction (demoReserve ''B'') (Some demoObligation)
                                        U64_MAX) \<lparr> hostAta := None \<rparr>))
            = [WithSigners [] ix]
          \<and> isMaxVariant ix \<and> literalAmount ix = None)
   \<and> (\<exists>ix. lendingIxs (addWithdrawIx (demoAction (demoReserve ''B'') (Some demoObligation) 5))
            = [WithSigners [] ix]
          \<and> \<not> isMaxVariant ix \<and> literalAmount ix = Some 5)"
proof -
  let ?built = "addRepayIx ((demoAction (demoReserve ''B'') (Some demoObligation) U64_MAX)
                              \<lparr> hostAta := None \<rparr>)"
  have b: "buildRepayTxns demoSdkEnv demoPool (demoReserve ''B'') U64_MAX ''user''
             ''production'' (Some ''obligation'') None None = Inr ?built"
    by (rule demo_build_repay)
  have l: "amount (demoAction (demoReserve ''B'') (Some demoObligation) 5) \<noteq> U64_MAX"
    by (simp add: demoAction_sel U64_MAX_def)
  from sentinel_selects_variant
         [where env = demoSdkEnv and pl = demoPool and rsv = "demoReserve ''B''"
            and amt = U64_MAX and wallet = "''user''" and environment = "''production''"
            and obligationAddr = "Some ''obligation''" and lookupTableAddress = None
            and wrappedMint = None] b
  have "oneLendingBySentinel U64_MAX ?built" by blast
  then have 1: "\<exists>ix. lendingIxs ?built = [WithSigners [] ix]
                  \<and> isMaxVariant ix \<and> literalAmount ix = None"
    by (simp add: oneLendingBySentinel_def)
  from sentinel_selects_variant
         [where this = "demoAction (demoReserve ''B'') (Some demoObligation) 5",
          THEN conjunct2, THEN conjunct1] l
  have 2: "\<exists>ix. lendingIxs (addWithdrawIx (demoAction (demoReserve ''B'')
                   (Some demoObligation) 5)) = [WithSigners [] ix]
        \<and> \<not> isMaxVariant ix \<and> literalAmount ix = Some 5"
    by (auto simp: appendsOneLending_def selectedBySentinel_def demoAction_sel)
  from b 1 2 show ?thesis by blast
qed





text \<open>
  C10. \<^verbatim>\<open>wrapUnwrapLiquidate\<close> is one of the supports of the liquidate action, and
  resolving it returns the builder as it was, whatever the builder, the action and the
  chain.
\<close>

theorem wrapUnwrapLiquidate_noop:
  "WrapUnwrapLiquidate \<in> set (ACTION_SUPPORT_REQUIREMENTS Liquidate)
   \<and> resolveSupport env action WrapUnwrapLiquidate this = Inr this"
  by (simp add: addWrapUnwrapLiquidateIxs_def)

theorem wrapUnwrapLiquidate_noop_witness:
  "resolveSupport demoSdkEnv Liquidate WrapUnwrapLiquidate
     ((demoAction (demoReserve ''B'') (Some demoObligation) 5)
        \<lparr> wrappedAta := Some ''wrapped'' \<rparr>)
   = Inr ((demoAction (demoReserve ''B'') (Some demoObligation) 5)
            \<lparr> wrappedAta := Some ''wrapped'' \<rparr>)"
  using wrapUnwrapLiquidate_noop
          [of demoSdkEnv Liquidate
              "(demoAction (demoReserve ''B'') (Some demoObligation) 5)
                 \<lparr> wrappedAta := Some ''wrapped'' \<rparr>"]
  by blast



subsection \<open>Auxiliary facts about the numbers\<close>


lemma roundHalfEven_of_int: "roundHalfEven (of_int m) = m"
  by (simp add: roundHalfEven_def)







lemma binade_range:
  assumes "1 \<le> x" "x < 2 ^ 53"
  shows "0 \<le> binade x \<and> binade x \<le> 52"
proof -
  have pos: "0 < nat \<lfloor>x\<rfloor>" using assms by simp
  have "\<lfloor>x\<rfloor> < 2 ^ 53" using assms by (simp add: floor_less_iff)
  then have "nat \<lfloor>x\<rfloor> < 2 ^ 53" using pos by (simp add: nat_less_iff)
  then have "floorlog 2 (nat \<lfloor>x\<rfloor>) \<le> 53" by (simp add: floorlog_le_iff)
  moreover have "floorlog 2 (nat \<lfloor>x\<rfloor>) \<noteq> 0"
    using pos by (simp add: floorlog_eq_zero_iff)
  ultimately show ?thesis using assms by (simp add: binade_def)
qed

lemma ulp_range:
  assumes "1 \<le> x" "x < 2 ^ 53"
  shows "\<exists>s::int. 0 < s \<and> ulp x = 1 / of_int s"
proof -
  from binade_range [OF assms] have "ulp x = 1 / of_int (2 ^ nat (52 - binade x))"
    by (auto simp: ulp_def Let_def)
  moreover have "(0::int) < 2 ^ nat (52 - binade x)" by simp
  ultimately show ?thesis by blast
qed


lemma toNumber_of_int:
  assumes "1 \<le> m" "m < 2 ^ 53"
  shows "toNumber (of_int m) = of_int m"
proof -
  have x1: "(1::rat) \<le> of_int m" using assms by simp
  have x2: "(of_int m :: rat) < 2 ^ 53" using assms(2) by (metis of_int_less_iff of_int_numeral of_int_power)
  from ulp_range [OF x1 x2] obtain s :: int where s: "0 < s" "ulp (of_int m) = 1 / of_int s"
    by blast
  have "roundHalfEven (of_int m * of_int s) = m * s"
    using roundHalfEven_of_int [of "m * s"] by simp
  then show ?thesis using x1 s by (simp add: toNumber_def)
qed








lemma parseInt_exact: "1 \<le> m \<Longrightarrow> m < 2 ^ 53 \<Longrightarrow> parseInt m = of_int m"
  by (simp add: parseInt_def toNumber_of_int)












subsection \<open>The amount of a full repay\<close>





end
